theory Spec2Isabelle
  imports Main
begin

section \<open>The create-webhook subcommand of the go/v3 plugin (pkg/plugins/golang/v3/webhook.go)\<close>

subsection \<open>Data model\<close>

text \<open>
  \<^verbatim>\<open>goPlugin.Options\<close>, with the fields that \<^verbatim>\<open>BindFlags\<close> writes. The zero value
  \<^verbatim>\<open>Options{}\<close> has every string empty and every flag false.
\<close>

record Options =
  Group :: string
  Domain :: string
  Version :: string
  Kind :: string
  Plural :: string
  WebhookVersion :: string
  DoDefaulting :: bool
  DoValidation :: bool
  DoConversion :: bool

definition Options_zero :: Options where
  "Options_zero =
     \<lparr>Group = [], Domain = [], Version = [], Kind = [], Plural = [], WebhookVersion = [],
      DoDefaulting = False, DoValidation = False, DoConversion = False\<rparr>"

text \<open>
  \<^verbatim>\<open>resource.GVK\<close>, \<^verbatim>\<open>resource.Webhooks\<close> and \<^verbatim>\<open>resource.Resource\<close>. The source reads
  \<^verbatim>\<open>p.resource.GVK\<close>, \<^verbatim>\<open>r.Webhooks != nil\<close> (a pointer, hence an option here) and
  \<^verbatim>\<open>p.resource.Webhooks.WebhookVersion\<close>; the remaining fields are the spec's
  ResourceIdentity and WebhookDescriptor.
\<close>

record GVK =
  gvk_Group :: string
  gvk_Domain :: string
  gvk_Version :: string
  gvk_Kind :: string

record Webhooks =
  wh_WebhookVersion :: string
  wh_Defaulting :: bool
  wh_Validation :: bool
  wh_Conversion :: bool

record Resource =
  GVK :: GVK
  res_Plural :: string
  Webhooks :: "Webhooks option"

definition Resource_zero :: Resource where
  "Resource_zero =
     \<lparr>GVK = \<lparr>gvk_Group = [], gvk_Domain = [], gvk_Version = [], gvk_Kind = []\<rparr>,
      res_Plural = [], Webhooks = None\<rparr>"

text \<open>
  \<^verbatim>\<open>config.Config\<close> is the injected project configuration. The subcommand uses three of
  its methods, so a configuration is the record of what they answer: the domain, the
  lookup of a resource by GVK (an error message or the stored resource) and the
  project-wide webhook version test.
\<close>

record Config =
  GetDomain :: string
  GetResource :: "GVK \<Rightarrow> string + Resource"
  IsWebhookVersionCompatible :: "string \<Rightarrow> bool"

text \<open>
  \<^verbatim>\<open>type createWebhookSubcommand struct\<close>. \<^verbatim>\<open>config\<close> is an interface value and
  \<^verbatim>\<open>options\<close> a pointer: both are nil (\<open>None\<close>) until \<^verbatim>\<open>InjectConfig\<close> and
  \<^verbatim>\<open>BindFlags\<close> have run.
\<close>

record createWebhookSubcommand =
  config :: "Config option"
  commandName :: string
  options :: "Options option"
  resource :: Resource
  force :: bool

definition createWebhookSubcommand_zero :: createWebhookSubcommand where
  "createWebhookSubcommand_zero =
     \<lparr>config = None, commandName = [], options = None, resource = Resource_zero,
      force = False\<rparr>"

text \<open>
  The failures of the subcommand, named as in the spec's taxonomy. The payload is what
  the source puts into the message: the error of the delegated check (returned
  unchanged), the command name, the requested webhook version, the I/O error.
  \<open>NilPointerPanic\<close> is the run-time panic of a method call or field read through nil.
\<close>

datatype error =
    NilPointerPanic
  | InvalidOption string
  | InvalidResource string
  | NoWebhookTypeSelected string
  | ResourceNotFound string
  | WebhookAlreadyExists
  | WebhookVersionConflict string
  | BoilerplateLoadFailure string
  | ScaffolderFailure string

subsection \<open>Callees outside webhook.go\<close>

text \<open>
  The two delegated well-formedness checks (\<^verbatim>\<open>Options.Validate\<close>, \<^verbatim>\<open>Resource.Validate\<close>)
  and \<^verbatim>\<open>Webhooks.IsEmpty\<close> live in other packages. They are parameters of the model:
  every theorem below holds for whatever they compute.
\<close>

record delegates =
  Options_Validate :: "Options \<Rightarrow> string option"
  Resource_Validate :: "Resource \<Rightarrow> string option"
  Webhooks_IsEmpty :: "Webhooks \<Rightarrow> bool"

text \<open>
  Modelled from the spec: \<^verbatim>\<open>Resource.HasDefaultingWebhook\<close>, \<^verbatim>\<open>HasValidationWebhook\<close> and
  \<^verbatim>\<open>HasConversionWebhook\<close> (package resource, not in webhook.go). The spec's check 3 asks
  that at least one of the descriptor's three booleans be true; a resource whose
  descriptor is absent has none.
\<close>

definition HasDefaultingWebhook :: "Resource \<Rightarrow> bool" where
  "HasDefaultingWebhook r = (case Webhooks r of None \<Rightarrow> False | Some w \<Rightarrow> wh_Defaulting w)"

definition HasValidationWebhook :: "Resource \<Rightarrow> bool" where
  "HasValidationWebhook r = (case Webhooks r of None \<Rightarrow> False | Some w \<Rightarrow> wh_Validation w)"

definition HasConversionWebhook :: "Resource \<Rightarrow> bool" where
  "HasConversionWebhook r = (case Webhooks r of None \<Rightarrow> False | Some w \<Rightarrow> wh_Conversion w)"

subsection \<open>Validate\<close>

text \<open>
  \<^verbatim>\<open>func (p *createWebhookSubcommand) Validate() error\<close>, statement by statement.
  \<open>Inr ()\<close> is the nil error.
\<close>

definition Validate :: "delegates \<Rightarrow> createWebhookSubcommand \<Rightarrow> error + unit" where
  "Validate d p =
     (case options p of
        None \<Rightarrow> Inl NilPointerPanic
      | Some opts \<Rightarrow>
     (case Options_Validate d opts of
        Some err \<Rightarrow> Inl (InvalidOption err)
      | None \<Rightarrow>
     (case Resource_Validate d (resource p) of
        Some err \<Rightarrow> Inl (InvalidResource err)
      | None \<Rightarrow>
     if \<not> HasDefaultingWebhook (resource p) \<and> \<not> HasValidationWebhook (resource p)
          \<and> \<not> HasConversionWebhook (resource p)
     then Inl (NoWebhookTypeSelected (commandName p))
     else
     (case config p of
        None \<Rightarrow> Inl NilPointerPanic
      | Some c \<Rightarrow>
     (case GetResource c (GVK (resource p)) of
        Inl err \<Rightarrow> Inl (ResourceNotFound (commandName p))
      | Inr r \<Rightarrow>
     if (case Webhooks r of None \<Rightarrow> False | Some w \<Rightarrow> \<not> Webhooks_IsEmpty d w) \<and> \<not> force p
     then Inl WebhookAlreadyExists
     else
     (case Webhooks (resource p) of
        None \<Rightarrow> Inl NilPointerPanic
      | Some w \<Rightarrow>
     if \<not> IsWebhookVersionCompatible c (wh_WebhookVersion w)
     then Inl (WebhookVersionConflict (wh_WebhookVersion w))
     else Inr ()))))))"

subsection \<open>Flag binding\<close>

text \<open>
  \<^verbatim>\<open>const defaultWebhookVersion = "v1"\<close>
\<close>

definition defaultWebhookVersion :: string where
  "defaultWebhookVersion = ''v1''"

text \<open>
  The pointers \<^verbatim>\<open>BindFlags\<close> can hand to the flag set: one for each field of the options
  struct and \<^verbatim>\<open>&p.force\<close>. Writing through a pointer into the options struct updates the
  struct \<^verbatim>\<open>p.options\<close> points to.
\<close>

datatype string_ptr =
  Ptr_Group | Ptr_Domain | Ptr_Version | Ptr_Kind | Ptr_Plural | Ptr_WebhookVersion

datatype bool_ptr =
  Ptr_DoDefaulting | Ptr_DoValidation | Ptr_DoConversion | Ptr_force

fun write_string :: "string_ptr \<Rightarrow> string \<Rightarrow> Options \<Rightarrow> Options" where
  "write_string Ptr_Group s opts = opts\<lparr>Group := s\<rparr>"
| "write_string Ptr_Domain s opts = opts\<lparr>Domain := s\<rparr>"
| "write_string Ptr_Version s opts = opts\<lparr>Version := s\<rparr>"
| "write_string Ptr_Kind s opts = opts\<lparr>Kind := s\<rparr>"
| "write_string Ptr_Plural s opts = opts\<lparr>Plural := s\<rparr>"
| "write_string Ptr_WebhookVersion s opts = opts\<lparr>WebhookVersion := s\<rparr>"

fun write_bool :: "bool_ptr \<Rightarrow> bool \<Rightarrow> createWebhookSubcommand \<Rightarrow> createWebhookSubcommand" where
  "write_bool Ptr_DoDefaulting b p = p\<lparr>options := map_option (\<lambda>opts. opts\<lparr>DoDefaulting := b\<rparr>) (options p)\<rparr>"
| "write_bool Ptr_DoValidation b p = p\<lparr>options := map_option (\<lambda>opts. opts\<lparr>DoValidation := b\<rparr>) (options p)\<rparr>"
| "write_bool Ptr_DoConversion b p = p\<lparr>options := map_option (\<lambda>opts. opts\<lparr>DoConversion := b\<rparr>) (options p)\<rparr>"
| "write_bool Ptr_force b p = p\<lparr>force := b\<rparr>"

text \<open>
  A registered flag: its name, the pointer it is bound to and its default value (the
  usage text is left out). \<^verbatim>\<open>fs.StringVar(ptr, name, value, usage)\<close> and \<^verbatim>\<open>fs.BoolVar\<close>
  store the default through the pointer and add the flag to the set.
\<close>

datatype flag =
    StringFlag string string_ptr string
  | BoolFlag string bool_ptr bool

fun flag_name :: "flag \<Rightarrow> string" where
  "flag_name (StringFlag n _ _) = n"
| "flag_name (BoolFlag n _ _) = n"

definition StringVar ::
  "string_ptr \<Rightarrow> string \<Rightarrow> string \<Rightarrow> createWebhookSubcommand \<times> flag list
     \<Rightarrow> createWebhookSubcommand \<times> flag list" where
  "StringVar ptr n v st =
     ((fst st)\<lparr>options := map_option (write_string ptr v) (options (fst st))\<rparr>,
      snd st @ [StringFlag n ptr v])"

definition BoolVar ::
  "bool_ptr \<Rightarrow> string \<Rightarrow> bool \<Rightarrow> createWebhookSubcommand \<times> flag list
     \<Rightarrow> createWebhookSubcommand \<times> flag list" where
  "BoolVar ptr n v st = (write_bool ptr v (fst st), snd st @ [BoolFlag n ptr v])"

text \<open>
  \<^verbatim>\<open>func (p *createWebhookSubcommand) BindFlags(fs *pflag.FlagSet)\<close>, line by line; the
  result is the subcommand and the flag set after the call. \<^verbatim>\<open>p.config.GetDomain()\<close> on a
  nil \<^verbatim>\<open>config\<close> panics.
\<close>

definition BindFlags ::
  "createWebhookSubcommand \<Rightarrow> flag list \<Rightarrow> error + createWebhookSubcommand \<times> flag list" where
  "BindFlags p fs =
     (case config p of
        None \<Rightarrow> Inl NilPointerPanic
      | Some c \<Rightarrow>
          (let st0 = (p\<lparr>options := Some Options_zero\<rparr>, fs);
               st1 = StringVar Ptr_Group ''group'' [] st0;
               st2 = ((fst st1)\<lparr>options :=
                        map_option (\<lambda>opts. opts\<lparr>Domain := GetDomain c\<rparr>) (options (fst st1))\<rparr>,
                      snd st1);
               st3 = StringVar Ptr_Version ''version'' [] st2;
               st4 = StringVar Ptr_Kind ''kind'' [] st3;
               st5 = StringVar Ptr_Plural ''plural'' [] st4;
               st6 = StringVar Ptr_WebhookVersion ''webhook-version'' defaultWebhookVersion st5;
               st7 = BoolVar Ptr_DoDefaulting ''defaulting'' False st6;
               st8 = BoolVar Ptr_DoValidation ''programmatic-validation'' False st7;
               st9 = BoolVar Ptr_DoConversion ''conversion'' False st8
           in Inr (BoolVar Ptr_force ''force'' False st9)))"

text \<open>
  Modelled from the spec: the flag-parsing library (an external collaborator). What it
  hands to this file is the list of the flags given on the command line, each with its
  value: a given flag's value is stored through the pointer the flag is bound to, a
  flag that is not given keeps its default, and a name that was never registered or a
  value of the wrong type is refused.
\<close>

datatype flag_value = StringValue string | BoolValue bool

fun Parse ::
  "flag list \<Rightarrow> (string \<times> flag_value) list \<Rightarrow> createWebhookSubcommand
     \<Rightarrow> string + createWebhookSubcommand" where
  "Parse fs [] p = Inr p"
| "Parse fs ((n, v) # args) p =
     (case (find (\<lambda>f. flag_name f = n) fs, v) of
        (Some (StringFlag _ ptr _), StringValue s) \<Rightarrow>
          Parse fs args (p\<lparr>options := map_option (write_string ptr s) (options p)\<rparr>)
      | (Some (BoolFlag _ ptr _), BoolValue b) \<Rightarrow> Parse fs args (write_bool ptr b p)
      | (Some _, _) \<Rightarrow> Inl (''invalid argument for flag --'' @ n)
      | (None, _) \<Rightarrow> Inl (''unknown flag: --'' @ n))"

text \<open>
  \<^verbatim>\<open>func (p *createWebhookSubcommand) InjectConfig(c config.Config)\<close> and the assignment
  of \<^verbatim>\<open>UpdateContext\<close> to the subcommand (its help texts go to the context, not to \<open>p\<close>).
\<close>

definition InjectConfig :: "createWebhookSubcommand \<Rightarrow> Config \<Rightarrow> createWebhookSubcommand" where
  "InjectConfig p c = p\<lparr>config := Some c\<rparr>"

definition UpdateContext :: "createWebhookSubcommand \<Rightarrow> string \<Rightarrow> createWebhookSubcommand" where
  "UpdateContext p ctx_CommandName = p\<lparr>commandName := ctx_CommandName\<rparr>"

subsection \<open>Building the resource, acquiring the scaffolder, running\<close>

text \<open>
  Modelled from the spec: \<^verbatim>\<open>Options.NewResource\<close> (package golang, not in webhook.go), the
  spec's Resource Descriptor Builder: a pure construction of the resource identity and
  the webhook descriptor from the options. String fields, the plural included, are
  passed through as they are. The project's configured domain is the options'
  \<open>Domain\<close>, where \<^verbatim>\<open>BindFlags\<close> stored it; the configuration argument of the call is
  not consulted for anything the spec describes.
\<close>

definition NewResource :: "Options \<Rightarrow> Config option \<Rightarrow> Resource" where
  "NewResource opts c =
     \<lparr>GVK = \<lparr>gvk_Group = Group opts, gvk_Domain = Domain opts,
              gvk_Version = Version opts, gvk_Kind = Kind opts\<rparr>,
      res_Plural = Plural opts,
      Webhooks = Some \<lparr>wh_WebhookVersion = WebhookVersion opts,
                        wh_Defaulting = DoDefaulting opts,
                        wh_Validation = DoValidation opts,
                        wh_Conversion = DoConversion opts\<rparr>\<rparr>"

text \<open>
  The first statement of \<^verbatim>\<open>Run\<close>: \<^verbatim>\<open>p.resource = p.options.NewResource(p.config)\<close>.
\<close>

definition Run_build :: "createWebhookSubcommand \<Rightarrow> error + createWebhookSubcommand" where
  "Run_build p =
     (case options p of
        None \<Rightarrow> Inl NilPointerPanic
      | Some opts \<Rightarrow> Inr (p\<lparr>resource := NewResource opts (config p)\<rparr>))"

text \<open>
  The scaffolder handle. \<^verbatim>\<open>scaffolds.NewWebhookScaffolder\<close> is a constructor of another
  package; the handle is the record of its four arguments.
\<close>

datatype scaffolder = NewWebhookScaffolder "Config option" string Resource bool

text \<open>
  \<^verbatim>\<open>filepath.Join("hack", "boilerplate.go.txt")\<close>: two non-empty clean elements, joined by
  the separator (a slash, as on every platform but Windows).
\<close>

definition filepath_Join :: "string \<Rightarrow> string \<Rightarrow> string" where
  "filepath_Join a b = a @ ''/'' @ b"

text \<open>
  \<^verbatim>\<open>func (p *createWebhookSubcommand) GetScaffolder() (cmdutil.Scaffolder, error)\<close>. The
  file system is the argument \<open>readFile\<close>: what \<^verbatim>\<open>ioutil.ReadFile\<close> answers for a path, an
  error or the file's content.
\<close>

definition GetScaffolder ::
  "(string \<Rightarrow> string + string) \<Rightarrow> createWebhookSubcommand \<Rightarrow> error + scaffolder" where
  "GetScaffolder readFile p =
     (case readFile (filepath_Join ''hack'' ''boilerplate.go.txt'') of
        Inl err \<Rightarrow> Inl (BoilerplateLoadFailure err)
      | Inr bp \<Rightarrow> Inr (NewWebhookScaffolder (config p) bp (resource p) (force p)))"

text \<open>
  \<^verbatim>\<open>func (p *createWebhookSubcommand) PostScaffold() error\<close>
\<close>

definition PostScaffold :: "createWebhookSubcommand \<Rightarrow> error + unit" where
  "PostScaffold p = Inr ()"

text \<open>
  The world outside the process, of any type \<open>'w\<close>: the project directory with its
  files and its stored configuration. \<open>ReadFile\<close> reads it; \<open>Scaffold\<close> is the external
  scaffolder, which may fail and may change it.
\<close>

record 'w externals =
  ReadFile :: "'w \<Rightarrow> string \<Rightarrow> string + string"
  Scaffold :: "scaffolder \<Rightarrow> 'w \<Rightarrow> string option \<times> 'w"

subsection \<open>The methods as statements over the state\<close>

text \<open>
  The methods have the pointer receiver \<^verbatim>\<open>p *createWebhookSubcommand\<close>: they run on a
  state and may change it. The state of one invocation is the struct the receiver
  points to (\<open>this\<close>), the project state outside the process, and the scaffolder handle
  once one has been acquired. A statement takes the state and gives an error or a value
  together with the state after it. Statements are built from reading the state,
  assigning to it, returning, failing, and sequencing, where a failure ends the
  sequence with the state reached so far.
\<close>

record 'w process =
  this :: createWebhookSubcommand
  project_state :: 'w
  acquired :: "scaffolder option"

type_synonym ('s, 'a) statement = "'s \<Rightarrow> (error + 'a) \<times> 's"

definition st_return :: "'a \<Rightarrow> ('s, 'a) statement" where
  "st_return a s = (Inr a, s)"

definition st_fail :: "error \<Rightarrow> ('s, 'a) statement" where
  "st_fail e s = (Inl e, s)"

definition st_read :: "('s \<Rightarrow> 'a) \<Rightarrow> ('s, 'a) statement" where
  "st_read f s = (Inr (f s), s)"

definition st_assign :: "('s \<Rightarrow> 's) \<Rightarrow> ('s, unit) statement" where
  "st_assign f s = (Inr (), f s)"

definition st_bind :: "('s, 'a) statement \<Rightarrow> ('a \<Rightarrow> ('s, 'b) statement) \<Rightarrow> ('s, 'b) statement" where
  "st_bind m k s = (case m s of (Inl e, s') \<Rightarrow> (Inl e, s') | (Inr a, s') \<Rightarrow> k a s')"

text \<open>
  \<^verbatim>\<open>func (p *createWebhookSubcommand) Validate() error\<close> once more, now as a statement:
  every \<^verbatim>\<open>p.options\<close>, \<^verbatim>\<open>p.resource\<close>, \<^verbatim>\<open>p.config\<close>, \<^verbatim>\<open>p.commandName\<close> and \<^verbatim>\<open>p.force\<close>
  of the source is a read of the state, every \<^verbatim>\<open>return\<close> a return or a failure. The body
  has no assignment. The delegated checks and the queries of the configuration are the
  functions they are in \<open>Validate\<close> above.
\<close>

definition Validate_st :: "delegates \<Rightarrow> ('w process, unit) statement" where
  "Validate_st d =
     st_bind (st_read (\<lambda>s. options (this s))) (\<lambda>optr.
     case optr of
       None \<Rightarrow> st_fail NilPointerPanic
     | Some opts \<Rightarrow>
     (case Options_Validate d opts of
        Some err \<Rightarrow> st_fail (InvalidOption err)
      | None \<Rightarrow>
     st_bind (st_read (\<lambda>s. resource (this s))) (\<lambda>res.
     case Resource_Validate d res of
       Some err \<Rightarrow> st_fail (InvalidResource err)
     | None \<Rightarrow>
     st_bind (st_read (\<lambda>s. resource (this s))) (\<lambda>res.
     if \<not> HasDefaultingWebhook res \<and> \<not> HasValidationWebhook res
          \<and> \<not> HasConversionWebhook res
     then st_bind (st_read (\<lambda>s. commandName (this s))) (\<lambda>n.
          st_fail (NoWebhookTypeSelected n))
     else
     st_bind (st_read (\<lambda>s. config (this s))) (\<lambda>cptr.
     case cptr of
       None \<Rightarrow> st_fail NilPointerPanic
     | Some c \<Rightarrow>
     st_bind (st_read (\<lambda>s. GVK (resource (this s)))) (\<lambda>g.
     case GetResource c g of
       Inl err \<Rightarrow>
         st_bind (st_read (\<lambda>s. commandName (this s))) (\<lambda>n.
         st_fail (ResourceNotFound n))
     | Inr r \<Rightarrow>
     st_bind (st_read (\<lambda>s. force (this s))) (\<lambda>f.
     if (case Webhooks r of None \<Rightarrow> False | Some w \<Rightarrow> \<not> Webhooks_IsEmpty d w) \<and> \<not> f
     then st_fail WebhookAlreadyExists
     else
     st_bind (st_read (\<lambda>s. config (this s))) (\<lambda>cptr'.
     case cptr' of
       None \<Rightarrow> st_fail NilPointerPanic
     | Some c' \<Rightarrow>
     st_bind (st_read (\<lambda>s. Webhooks (resource (this s)))) (\<lambda>wptr.
     case wptr of
       None \<Rightarrow> st_fail NilPointerPanic
     | Some w \<Rightarrow>
     if \<not> IsWebhookVersionCompatible c' (wh_WebhookVersion w)
     then st_fail (WebhookVersionConflict (wh_WebhookVersion w))
     else st_return ())))))))))"

text \<open>
  \<^verbatim>\<open>GetScaffolder\<close> as a statement: it reads the project state (the boilerplate file) and
  the receiver, and assigns to neither.
\<close>

definition GetScaffolder_st :: "'w externals \<Rightarrow> ('w process, scaffolder) statement" where
  "GetScaffolder_st x =
     st_bind (st_read (\<lambda>s. GetScaffolder (ReadFile x (project_state s)) (this s))) (\<lambda>res.
     case res of
       Inl e \<Rightarrow> st_fail e
     | Inr sc \<Rightarrow> st_return sc)"

text \<open>
  Handing control to the external scaffolder: the one statement that changes the
  project state.
\<close>

definition Scaffold_st :: "'w externals \<Rightarrow> scaffolder \<Rightarrow> ('w process, unit) statement" where
  "Scaffold_st x sc =
     st_bind (st_read (\<lambda>s. Scaffold x sc (project_state s))) (\<lambda>res.
     st_bind (st_assign (\<lambda>s. s\<lparr>project_state := snd res\<rparr>)) (\<lambda>_.
     case fst res of
       Some err \<Rightarrow> st_fail (ScaffolderFailure err)
     | None \<Rightarrow> st_return ()))"

text \<open>
  Modelled from the spec: \<^verbatim>\<open>cmdutil.Run\<close> (package cmdutil, not in webhook.go), the spec's
  Run Orchestrator from ResourceBuilt on: validate; acquire the scaffolder (failure:
  the boilerplate could not be loaded); hand control to the scaffolder once, whose
  failure is reported as ScaffolderFailure; done. Each step is reached only when the
  one before it did not fail.
\<close>

definition cmdutil_Run :: "delegates \<Rightarrow> 'w externals \<Rightarrow> ('w process, unit) statement" where
  "cmdutil_Run d x =
     st_bind (Validate_st d) (\<lambda>_.
     st_bind (GetScaffolder_st x) (\<lambda>sc.
     st_bind (st_assign (\<lambda>s. s\<lparr>acquired := Some sc\<rparr>)) (\<lambda>_.
     st_bind (Scaffold_st x sc) (\<lambda>_.
     st_bind (st_read (\<lambda>s. PostScaffold (this s))) (\<lambda>res.
     case res of
       Inl e \<Rightarrow> st_fail e
     | Inr _ \<Rightarrow> st_return ())))))"

text \<open>
  \<^verbatim>\<open>func (p *createWebhookSubcommand) Run() error\<close>: the assignment
  \<^verbatim>\<open>p.resource = p.options.NewResource(p.config)\<close>, then \<^verbatim>\<open>return cmdutil.Run(p)\<close>.
\<close>

definition Run :: "delegates \<Rightarrow> 'w externals \<Rightarrow> ('w process, unit) statement" where
  "Run d x =
     st_bind (st_read (\<lambda>s. options (this s))) (\<lambda>optr.
     case optr of
       None \<Rightarrow> st_fail NilPointerPanic
     | Some opts \<Rightarrow>
     st_bind (st_read (\<lambda>s. config (this s))) (\<lambda>c.
     st_bind (st_assign (\<lambda>s. s\<lparr>this := (this s)\<lparr>resource := NewResource opts c\<rparr>\<rparr>)) (\<lambda>_.
     cmdutil_Run d x)))"

subsection \<open>Vocabulary of the statements\<close>

text \<open>
  Names for three conditions of \<^verbatim>\<open>Validate\<close>: the negation of the condition of its
  third \<^verbatim>\<open>if\<close>; the first two conjuncts of the condition on the resource found in the
  configuration (\<^verbatim>\<open>r.Webhooks != nil && !r.Webhooks.IsEmpty()\<close>); and that both
  delegated well-formedness checks return nil.
\<close>

definition webhook_type_selected :: "Resource \<Rightarrow> bool" where
  "webhook_type_selected r =
     (HasDefaultingWebhook r \<or> HasValidationWebhook r \<or> HasConversionWebhook r)"

definition carries_webhooks :: "delegates \<Rightarrow> Resource \<Rightarrow> bool" where
  "carries_webhooks d r =
     (case Webhooks r of None \<Rightarrow> False | Some w \<Rightarrow> \<not> Webhooks_IsEmpty d w)"

definition well_formed :: "delegates \<Rightarrow> createWebhookSubcommand \<Rightarrow> bool" where
  "well_formed d p =
     (case options p of
        None \<Rightarrow> False
      | Some opts \<Rightarrow>
          Options_Validate d opts = None \<and> Resource_Validate d (resource p) = None)"

subsection \<open>The project configuration and an example project\<close>

text \<open>
  Modelled from the spec: the Project Config collaborator and its
  \<^verbatim>\<open>IsWebhookVersionCompatible\<close> (package config, not in webhook.go). The project holds its
  domain and the resources declared so far. The webhook version the project is
  committed to is inferred from any resource that carries a non-empty webhook
  descriptor; a requested version is compatible when it matches the committed one, if
  one exists. A lookup finds the declared resource with the given GVK or fails.
\<close>

record Project =
  proj_Domain :: string
  proj_Resources :: "Resource list"

definition committed_webhook_version :: "(Webhooks \<Rightarrow> bool) \<Rightarrow> Project \<Rightarrow> string option" where
  "committed_webhook_version isEmpty pr =
     (case List.map_filter
             (\<lambda>r. case Webhooks r of
                    None \<Rightarrow> None
                  | Some w \<Rightarrow> if isEmpty w then None else Some (wh_WebhookVersion w))
             (proj_Resources pr) of
        [] \<Rightarrow> None
      | v # _ \<Rightarrow> Some v)"

definition project_config :: "(Webhooks \<Rightarrow> bool) \<Rightarrow> Project \<Rightarrow> Config" where
  "project_config isEmpty pr =
     \<lparr>GetDomain = proj_Domain pr,
      GetResource =
        (\<lambda>g. case find (\<lambda>r. GVK r = g) (proj_Resources pr) of
               None \<Rightarrow> Inl ''resource not found''
             | Some r \<Rightarrow> Inr r),
      IsWebhookVersionCompatible =
        (\<lambda>v. case committed_webhook_version isEmpty pr of
               None \<Rightarrow> True
             | Some v' \<Rightarrow> v = v')\<rparr>"

text \<open>
  Modelled from the spec: the delegated checks as far as the spec states their rules,
  for the examples below only. Check 1: the Kind must be non-empty. Check 2: the Version
  must be non-empty. The spec does not say when a webhook descriptor is empty; here it
  is when no webhook type is enabled and no version is set.
\<close>

definition example_delegates :: delegates where
  "example_delegates =
     \<lparr>Options_Validate = (\<lambda>opts. if Kind opts = [] then Some ''kind cannot be empty'' else None),
      Resource_Validate =
        (\<lambda>r. if gvk_Version (GVK r) = [] then Some ''version cannot be empty'' else None),
      Webhooks_IsEmpty =
        (\<lambda>w. wh_WebhookVersion w = [] \<and> \<not> wh_Defaulting w \<and> \<not> wh_Validation w
               \<and> \<not> wh_Conversion w)\<rparr>"

text \<open>
  The example of the help text: group ship, version v1beta1, kind Frigate, in a project
  of domain example.com. \<open>frigate\<close> is the resource as an earlier "create api" left it,
  \<open>frigate_v1\<close> the same resource after a defaulting webhook of version v1 was scaffolded,
  \<open>cruiser\<close> a second kind of the same group and version, without webhooks.
\<close>

definition frigate_options :: Options where
  "frigate_options =
     \<lparr>Group = ''ship'', Domain = ''example.com'', Version = ''v1beta1'', Kind = ''Frigate'',
      Plural = [], WebhookVersion = ''v1'',
      DoDefaulting = True, DoValidation = False, DoConversion = False\<rparr>"

definition frigate :: Resource where
  "frigate =
     \<lparr>GVK = \<lparr>gvk_Group = ''ship'', gvk_Domain = ''example.com'',
              gvk_Version = ''v1beta1'', gvk_Kind = ''Frigate''\<rparr>,
      res_Plural = [], Webhooks = None\<rparr>"

definition frigate_v1 :: Resource where
  "frigate_v1 =
     frigate\<lparr>Webhooks := Some \<lparr>wh_WebhookVersion = ''v1'', wh_Defaulting = True,
                                  wh_Validation = False, wh_Conversion = False\<rparr>\<rparr>"

definition cruiser :: Resource where
  "cruiser = frigate\<lparr>GVK := (GVK frigate)\<lparr>gvk_Kind := ''Cruiser''\<rparr>\<rparr>"

definition example_config :: "Resource list \<Rightarrow> Config" where
  "example_config rs =
     project_config (Webhooks_IsEmpty example_delegates)
       \<lparr>proj_Domain = ''example.com'', proj_Resources = rs\<rparr>"

text \<open>
  The subcommand as \<^verbatim>\<open>Run\<close> passes it on: configuration injected, options bound, the
  resource built from them.
\<close>

definition built :: "Config \<Rightarrow> Options \<Rightarrow> bool \<Rightarrow> createWebhookSubcommand" where
  "built c opts f =
     \<lparr>config = Some c, commandName = ''kubebuilder'', options = Some opts,
      resource = NewResource opts (Some c), force = f\<rparr>"

section \<open>The branches of Validate\<close>

lemma Validate_nil_options:
  "options p = None \<Longrightarrow> Validate d p = Inl NilPointerPanic"
  by (simp add: Validate_def)

lemma Validate_InvalidOption:
  "options p = Some opts \<Longrightarrow> Options_Validate d opts = Some m
     \<Longrightarrow> Validate d p = Inl (InvalidOption m)"
  by (simp add: Validate_def)

lemma Validate_InvalidResource:
  "options p = Some opts \<Longrightarrow> Options_Validate d opts = None
     \<Longrightarrow> Resource_Validate d (resource p) = Some m
     \<Longrightarrow> Validate d p = Inl (InvalidResource m)"
  by (simp add: Validate_def)

lemma Validate_NoWebhookTypeSelected:
  "well_formed d p \<Longrightarrow> \<not> webhook_type_selected (resource p)
     \<Longrightarrow> Validate d p = Inl (NoWebhookTypeSelected (commandName p))"
  by (auto simp: Validate_def well_formed_def webhook_type_selected_def split: option.splits)

lemma Validate_nil_config:
  "well_formed d p \<Longrightarrow> webhook_type_selected (resource p) \<Longrightarrow> config p = None
     \<Longrightarrow> Validate d p = Inl NilPointerPanic"
  by (auto simp: Validate_def well_formed_def webhook_type_selected_def split: option.splits)

lemma Validate_ResourceNotFound:
  "well_formed d p \<Longrightarrow> webhook_type_selected (resource p) \<Longrightarrow> config p = Some c
     \<Longrightarrow> GetResource c (GVK (resource p)) = Inl err
     \<Longrightarrow> Validate d p = Inl (ResourceNotFound (commandName p))"
  by (auto simp: Validate_def well_formed_def webhook_type_selected_def split: option.splits)

lemma Validate_WebhookAlreadyExists:
  "well_formed d p \<Longrightarrow> webhook_type_selected (resource p) \<Longrightarrow> config p = Some c
     \<Longrightarrow> GetResource c (GVK (resource p)) = Inr r
     \<Longrightarrow> carries_webhooks d r \<Longrightarrow> \<not> force p
     \<Longrightarrow> Validate d p = Inl WebhookAlreadyExists"
  by (auto simp: Validate_def well_formed_def webhook_type_selected_def carries_webhooks_def
      split: option.splits)

lemma selected_has_descriptor:
  "webhook_type_selected r \<Longrightarrow> \<exists>w. Webhooks r = Some w"
  by (auto simp: webhook_type_selected_def HasDefaultingWebhook_def HasValidationWebhook_def
      HasConversionWebhook_def split: option.splits)

lemma Validate_version_check:
  "well_formed d p \<Longrightarrow> webhook_type_selected (resource p) \<Longrightarrow> config p = Some c
     \<Longrightarrow> GetResource c (GVK (resource p)) = Inr r
     \<Longrightarrow> \<not> carries_webhooks d r \<or> force p
     \<Longrightarrow> Webhooks (resource p) = Some w
     \<Longrightarrow> Validate d p =
           (if IsWebhookVersionCompatible c (wh_WebhookVersion w) then Inr ()
            else Inl (WebhookVersionConflict (wh_WebhookVersion w)))"
  by (auto simp: Validate_def well_formed_def webhook_type_selected_def carries_webhooks_def
      split: option.splits)

lemma Validate_force_irrelevant:
  "Validate d (p\<lparr>force := False\<rparr>) \<noteq> Inl WebhookAlreadyExists
     \<Longrightarrow> Validate d (p\<lparr>force := f\<rparr>) = Validate d (p\<lparr>force := False\<rparr>)"
  by (auto simp: Validate_def split: option.splits sum.splits if_splits)

lemma Validate_forced_never_exists:
  "force p \<Longrightarrow> Validate d p \<noteq> Inl WebhookAlreadyExists"
  by (auto simp: Validate_def split: option.splits sum.splits if_splits)

lemma Validate_exists_reached:
  "Validate d p = Inl WebhookAlreadyExists \<Longrightarrow>
     well_formed d p \<and> webhook_type_selected (resource p) \<and> \<not> force p \<and>
     (\<exists>c r. config p = Some c \<and> GetResource c (GVK (resource p)) = Inr r \<and> carries_webhooks d r)"
  by (auto simp: Validate_def well_formed_def webhook_type_selected_def carries_webhooks_def
      split: option.splits sum.splits if_splits)

lemma Validate_incompatible_fails:
  "config p = Some c \<Longrightarrow> Webhooks (resource p) = Some w
     \<Longrightarrow> \<not> IsWebhookVersionCompatible c (wh_WebhookVersion w)
     \<Longrightarrow> Validate d p \<noteq> Inr ()"
  by (auto simp: Validate_def split: option.splits sum.splits if_splits)

lemma Validate_ok_reached:
  assumes ok: "Validate d p = Inr ()"
  shows "well_formed d p \<and> webhook_type_selected (resource p) \<and>
     (\<exists>c r w. config p = Some c \<and> GetResource c (GVK (resource p)) = Inr r
        \<and> (\<not> carries_webhooks d r \<or> force p) \<and> Webhooks (resource p) = Some w
        \<and> IsWebhookVersionCompatible c (wh_WebhookVersion w))"
proof -
  obtain opts where o: "options p = Some opts"
    using ok Validate_nil_options [of p d] by (cases "options p") simp_all
  have ov: "Options_Validate d opts = None"
    using ok Validate_InvalidOption [OF o, of d] by (cases "Options_Validate d opts") simp_all
  have rv: "Resource_Validate d (resource p) = None"
    using ok Validate_InvalidResource [OF o ov]
    by (cases "Resource_Validate d (resource p)") simp_all
  have wf: "well_formed d p"
    using o ov rv by (simp add: well_formed_def)
  have sel: "webhook_type_selected (resource p)"
    using ok Validate_NoWebhookTypeSelected [OF wf] by force
  obtain c where c: "config p = Some c"
    using ok Validate_nil_config [OF wf sel] by (cases "config p") simp_all
  obtain r where r: "GetResource c (GVK (resource p)) = Inr r"
    using ok Validate_ResourceNotFound [OF wf sel c]
    by (cases "GetResource c (GVK (resource p))") simp_all
  have nd: "\<not> carries_webhooks d r \<or> force p"
    using ok Validate_WebhookAlreadyExists [OF wf sel c r] by force
  obtain w where w: "Webhooks (resource p) = Some w"
    using selected_has_descriptor [OF sel] by blast
  have "IsWebhookVersionCompatible c (wh_WebhookVersion w)"
    using ok Validate_version_check [OF wf sel c r nd w] by (simp split: if_splits)
  with wf sel c r nd w show ?thesis by blast
qed

lemma well_formed_force:
  "well_formed d (p\<lparr>force := f\<rparr>) = well_formed d p"
  by (simp add: well_formed_def split: option.splits)

lemma committed_version_compatible:
  "committed_webhook_version isEmpty pr = Some v
     \<Longrightarrow> IsWebhookVersionCompatible (project_config isEmpty pr) v' = (v' = v)"
  by (simp add: project_config_def)

lemma Run_build_resource:
  "options p0 = Some opts \<Longrightarrow> Run_build p0 = Inr p
     \<Longrightarrow> p = p0\<lparr>resource := NewResource opts (config p0)\<rparr>"
  by (auto simp: Run_build_def)

lemma NewResource_selected:
  "webhook_type_selected (NewResource opts c)
     = (DoDefaulting opts \<or> DoValidation opts \<or> DoConversion opts)"
  by (simp add: webhook_type_selected_def HasDefaultingWebhook_def HasValidationWebhook_def
      HasConversionWebhook_def NewResource_def)

lemma Validate_reads_config:
  assumes "GetResource c (GVK (resource p)) = GetResource c' (GVK (resource p))"
    and "\<And>w. Webhooks (resource p) = Some w \<Longrightarrow>
           IsWebhookVersionCompatible c (wh_WebhookVersion w)
             = IsWebhookVersionCompatible c' (wh_WebhookVersion w)"
  shows "Validate d (p\<lparr>config := Some c\<rparr>) = Validate d (p\<lparr>config := Some c'\<rparr>)"
  using assms
  by (simp add: Validate_def cong: option.case_cong sum.case_cong if_cong)

section \<open>The statements\<close>

lemmas statement_defs =
  st_return_def st_fail_def st_read_def st_assign_def st_bind_def

lemma Validate_st_eq:
  "Validate_st d s = (Validate d (this s), s)"
  unfolding Validate_st_def Validate_def statement_defs
  by (auto split: option.splits sum.splits)

lemma GetScaffolder_st_eq:
  "GetScaffolder_st x s = (GetScaffolder (ReadFile x (project_state s)) (this s), s)"
  by (simp add: GetScaffolder_st_def statement_defs split: sum.splits)

lemma cmdutil_Run_failed:
  "Validate d (this s) = Inl e \<Longrightarrow> cmdutil_Run d x s = (Inl e, s)"
  by (simp add: cmdutil_Run_def st_bind_def Validate_st_eq)

lemma Run_failed:
  assumes "Run_build (this s) = Inr p" and "Validate d p = Inl e"
  shows "Run d x s = (Inl e, s\<lparr>this := p\<rparr>)"
proof -
  from assms(1) obtain opts where o: "options (this s) = Some opts"
    and p: "p = (this s)\<lparr>resource := NewResource opts (config (this s))\<rparr>"
    by (auto simp: Run_build_def split: option.splits)
  have "cmdutil_Run d x (s\<lparr>this := p\<rparr>) = (Inl e, s\<lparr>this := p\<rparr>)"
    using assms(2) by (simp add: cmdutil_Run_failed)
  then show ?thesis
    by (simp add: Run_def statement_defs o p)
qed

section \<open>Flag binding and parsing\<close>

lemma BindFlags_InjectConfig:
  "BindFlags (InjectConfig p c) fs =
     Inr (p\<lparr>config := Some c,
             options := Some (Options_zero\<lparr>Domain := GetDomain c, WebhookVersion := ''v1''\<rparr>),
             force := False\<rparr>,
          fs @ [StringFlag ''group'' Ptr_Group [],
                StringFlag ''version'' Ptr_Version [],
                StringFlag ''kind'' Ptr_Kind [],
                StringFlag ''plural'' Ptr_Plural [],
                StringFlag ''webhook-version'' Ptr_WebhookVersion ''v1'',
                BoolFlag ''defaulting'' Ptr_DoDefaulting False,
                BoolFlag ''programmatic-validation'' Ptr_DoValidation False,
                BoolFlag ''conversion'' Ptr_DoConversion False,
                BoolFlag ''force'' Ptr_force False])"
  by (simp add: BindFlags_def InjectConfig_def StringVar_def BoolVar_def Let_def
      Options_zero_def defaultWebhookVersion_def)

lemma BindFlags_nil_config:
  "config p = None \<Longrightarrow> BindFlags p fs = Inl NilPointerPanic"
  by (simp add: BindFlags_def)

lemma write_bool_frame:
  "config (write_bool ptr b p) = config p"
  "resource (write_bool ptr b p) = resource p"
  "commandName (write_bool ptr b p) = commandName p"
  "map_option Domain (options (write_bool ptr b p)) = map_option Domain (options p)"
  "map_option WebhookVersion (options (write_bool ptr b p)) = map_option WebhookVersion (options p)"
  by (cases ptr; cases "options p"; simp)+

lemma write_string_frame:
  "ptr \<noteq> Ptr_Domain \<Longrightarrow> Domain (write_string ptr s opts) = Domain opts"
  "ptr \<noteq> Ptr_WebhookVersion \<Longrightarrow> WebhookVersion (write_string ptr s opts) = WebhookVersion opts"
  by (cases ptr; simp)+

lemma Parse_frame:
  "Parse fs args p = Inr p' \<Longrightarrow>
     config p' = config p \<and> resource p' = resource p \<and> commandName p' = commandName p"
proof (induction args arbitrary: p)
  case Nil
  then show ?case by simp
next
  case (Cons a args)
  obtain n v where a: "a = (n, v)" by (cases a)
  show ?case
  proof (cases "find (\<lambda>f. flag_name f = n) fs")
    case None
    with Cons.prems a show ?thesis by simp
  next
    case (Some f)
    show ?thesis
    proof (cases f)
      case (StringFlag m ptr dv)
      with Cons.prems a Some obtain s where v: "v = StringValue s"
        by (cases v) simp_all
      with Cons.prems a Some StringFlag
      have "Parse fs args (p\<lparr>options := map_option (write_string ptr s) (options p)\<rparr>) = Inr p'"
        by simp
      from Cons.IH [OF this] show ?thesis by simp
    next
      case (BoolFlag m ptr dv)
      with Cons.prems a Some obtain b where v: "v = BoolValue b"
        by (cases v) simp_all
      with Cons.prems a Some BoolFlag
      have "Parse fs args (write_bool ptr b p) = Inr p'"
        by simp
      from Cons.IH [OF this] show ?thesis by (simp add: write_bool_frame)
    qed
  qed
qed

lemma Parse_keeps_Domain:
  assumes "\<And>n v. StringFlag n Ptr_Domain v \<notin> set fs"
    and "Parse fs args p = Inr p'"
  shows "map_option Domain (options p') = map_option Domain (options p)"
  using assms(2)
proof (induction args arbitrary: p)
  case Nil
  then show ?case by simp
next
  case (Cons a args)
  obtain n v where a: "a = (n, v)" by (cases a)
  show ?case
  proof (cases "find (\<lambda>f. flag_name f = n) fs")
    case None
    with Cons.prems a show ?thesis by simp
  next
    case (Some f)
    then have mem: "f \<in> set fs"
      by (auto simp: find_Some_iff)
    show ?thesis
    proof (cases f)
      case (StringFlag m ptr dv)
      with mem assms(1) have ne: "ptr \<noteq> Ptr_Domain" by auto
      from Cons.prems a Some StringFlag obtain s where v: "v = StringValue s"
        by (cases v) simp_all
      with Cons.prems a Some StringFlag
      have "Parse fs args (p\<lparr>options := map_option (write_string ptr s) (options p)\<rparr>) = Inr p'"
        by simp
      from Cons.IH [OF this] ne show ?thesis
        by (cases "options p") (simp_all add: write_string_frame)
    next
      case (BoolFlag m ptr dv)
      with Cons.prems a Some obtain b where v: "v = BoolValue b"
        by (cases v) simp_all
      with Cons.prems a Some BoolFlag
      have "Parse fs args (write_bool ptr b p) = Inr p'"
        by simp
      from Cons.IH [OF this] show ?thesis by (simp add: write_bool_frame)
    qed
  qed
qed

lemma Parse_keeps_WebhookVersion:
  assumes "\<And>n v. StringFlag n Ptr_WebhookVersion v \<in> set fs \<Longrightarrow> n \<notin> fst ` set args"
    and "Parse fs args p = Inr p'"
  shows "map_option WebhookVersion (options p') = map_option WebhookVersion (options p)"
  using assms
proof (induction args arbitrary: p)
  case Nil
  then show ?case by simp
next
  case (Cons a args)
  obtain n v where a: "a = (n, v)" by (cases a)
  have rest: "\<And>n v. StringFlag n Ptr_WebhookVersion v \<in> set fs \<Longrightarrow> n \<notin> fst ` set args"
    using Cons.prems(1) by auto
  show ?case
  proof (cases "find (\<lambda>f. flag_name f = n) fs")
    case None
    with Cons.prems a show ?thesis by simp
  next
    case (Some f)
    then have mem: "f \<in> set fs" and nm: "flag_name f = n"
      by (auto simp: find_Some_iff)
    show ?thesis
    proof (cases f)
      case (StringFlag m ptr dv)
      with mem nm Cons.prems(1) [of m dv] a have ne: "ptr \<noteq> Ptr_WebhookVersion" by auto
      from Cons.prems a Some StringFlag obtain s where v: "v = StringValue s"
        by (cases v) simp_all
      with Cons.prems a Some StringFlag
      have "Parse fs args (p\<lparr>options := map_option (write_string ptr s) (options p)\<rparr>) = Inr p'"
        by simp
      from Cons.IH [OF rest this] ne show ?thesis
        by (cases "options p") (simp_all add: write_string_frame)
    next
      case (BoolFlag m ptr dv)
      with Cons.prems a Some obtain b where v: "v = BoolValue b"
        by (cases v) simp_all
      with Cons.prems a Some BoolFlag
      have "Parse fs args (write_bool ptr b p) = Inr p'"
        by simp
      from Cons.IH [OF rest this] show ?thesis by (simp add: write_bool_frame)
    qed
  qed
qed

lemma Parse_unknown_flag:
  assumes "n \<notin> flag_name ` set fs" and "Parse fs args p = Inr p'"
  shows "n \<notin> fst ` set args"
  using assms(2)
proof (induction args arbitrary: p)
  case Nil
  then show ?case by simp
next
  case (Cons a args)
  obtain m v where a: "a = (m, v)" by (cases a)
  show ?case
  proof (cases "find (\<lambda>f. flag_name f = m) fs")
    case None
    with Cons.prems a show ?thesis by simp
  next
    case (Some f)
    then have "f \<in> set fs" and "flag_name f = m"
      by (auto simp: find_Some_iff)
    with assms(1) have ne: "m \<noteq> n" by auto
    have "\<exists>q. Parse fs args q = Inr p'"
      using Cons.prems a Some
      by (cases f; cases v) auto
    then obtain q where "Parse fs args q = Inr p'" by blast
    from Cons.IH [OF this] ne a show ?thesis by simp
  qed
qed

lemma uncommitted_compatible:
  "committed_webhook_version isEmpty pr = None
     \<Longrightarrow> IsWebhookVersionCompatible (project_config isEmpty pr) v"
  by (simp add: project_config_def)

lemmas example_defs =
  built_def example_config_def project_config_def example_delegates_def
  frigate_options_def frigate_v1_def frigate_def cruiser_def NewResource_def HasDefaultingWebhook_def
  HasValidationWebhook_def HasConversionWebhook_def committed_webhook_version_def
  well_formed_def webhook_type_selected_def carries_webhooks_def

section \<open>The validation chain\<close>

text \<open>
  Claim C1. \<^verbatim>\<open>Validate\<close> runs its checks as a short-circuiting chain in the fixed order
  option well-formedness, resource well-formedness, webhook-type selection, resource
  existence, non-duplication unless forced, webhook version compatibility. Each line of
  the theorem takes one check as the first that fails: its hypothesis says that the
  checks before it pass and that this one fails, and nothing about the checks after it,
  so the reported error is the one of the first failing check whatever the later checks
  would answer (a nil configuration included, which a later check would panic on). The
  last line is the case where all six pass.
\<close>

theorem Validate_ordered_chain:
  "(options p = Some opts \<and> Options_Validate d opts = Some m
      \<longrightarrow> Validate d p = Inl (InvalidOption m))
   \<and> (options p = Some opts \<and> Options_Validate d opts = None
        \<and> Resource_Validate d (resource p) = Some m
      \<longrightarrow> Validate d p = Inl (InvalidResource m))
   \<and> (well_formed d p \<and> \<not> webhook_type_selected (resource p)
      \<longrightarrow> Validate d p = Inl (NoWebhookTypeSelected (commandName p)))
   \<and> (well_formed d p \<and> webhook_type_selected (resource p) \<and> config p = Some c
        \<and> GetResource c (GVK (resource p)) = Inl err
      \<longrightarrow> Validate d p = Inl (ResourceNotFound (commandName p)))
   \<and> (well_formed d p \<and> webhook_type_selected (resource p) \<and> config p = Some c
        \<and> GetResource c (GVK (resource p)) = Inr r
        \<and> carries_webhooks d r \<and> \<not> force p
      \<longrightarrow> Validate d p = Inl WebhookAlreadyExists)
   \<and> (well_formed d p \<and> webhook_type_selected (resource p) \<and> config p = Some c
        \<and> GetResource c (GVK (resource p)) = Inr r
        \<and> (\<not> carries_webhooks d r \<or> force p)
        \<and> Webhooks (resource p) = Some w
        \<and> \<not> IsWebhookVersionCompatible c (wh_WebhookVersion w)
      \<longrightarrow> Validate d p = Inl (WebhookVersionConflict (wh_WebhookVersion w)))
   \<and> (well_formed d p \<and> webhook_type_selected (resource p) \<and> config p = Some c
        \<and> GetResource c (GVK (resource p)) = Inr r
        \<and> (\<not> carries_webhooks d r \<or> force p)
        \<and> Webhooks (resource p) = Some w
        \<and> IsWebhookVersionCompatible c (wh_WebhookVersion w)
      \<longrightarrow> Validate d p = Inr ())"
  using Validate_InvalidOption [of p opts d m] Validate_InvalidResource [of p opts d m]
    Validate_NoWebhookTypeSelected [of d p] Validate_ResourceNotFound [of d p c err]
    Validate_WebhookAlreadyExists [of d p c r] Validate_version_check [of d p c r w]
  by simp

text \<open>
  One input for each line: no kind; no version; no webhook type; a project without the
  resource; the resource already carrying a webhook; a forced request of another
  webhook version; and the request that passes.
\<close>

theorem Validate_ordered_chain_witness:
  "Validate example_delegates
     (built (example_config [frigate]) (frigate_options\<lparr>Kind := [], Version := []\<rparr>) False)
     = Inl (InvalidOption ''kind cannot be empty'')
   \<and> Validate example_delegates
     (built (example_config [frigate]) (frigate_options\<lparr>Version := []\<rparr>) False)
     = Inl (InvalidResource ''version cannot be empty'')
   \<and> Validate example_delegates
     (built (example_config []) (frigate_options\<lparr>DoDefaulting := False\<rparr>) False)
     = Inl (NoWebhookTypeSelected ''kubebuilder'')
   \<and> Validate example_delegates (built (example_config []) frigate_options False)
     = Inl (ResourceNotFound ''kubebuilder'')
   \<and> Validate example_delegates
     (built (example_config [frigate_v1]) (frigate_options\<lparr>WebhookVersion := ''v1beta1''\<rparr>) False)
     = Inl WebhookAlreadyExists
   \<and> Validate example_delegates
     (built (example_config [frigate_v1]) (frigate_options\<lparr>WebhookVersion := ''v1beta1''\<rparr>) True)
     = Inl (WebhookVersionConflict ''v1beta1'')
   \<and> Validate example_delegates (built (example_config [frigate]) frigate_options False)
     = Inr ()"
proof -
  let ?d = example_delegates
  have 1: "Validate ?d
     (built (example_config [frigate]) (frigate_options\<lparr>Kind := [], Version := []\<rparr>) False)
     = Inl (InvalidOption ''kind cannot be empty'')"
    using Validate_ordered_chain
      [where d = ?d and opts = "frigate_options\<lparr>Kind := [], Version := []\<rparr>"
         and m = "''kind cannot be empty''"
         and p = "built (example_config [frigate])
                    (frigate_options\<lparr>Kind := [], Version := []\<rparr>) False"]
    by (simp add: example_defs)
  have 2: "Validate ?d
     (built (example_config [frigate]) (frigate_options\<lparr>Version := []\<rparr>) False)
     = Inl (InvalidResource ''version cannot be empty'')"
    using Validate_ordered_chain
      [where d = ?d and opts = "frigate_options\<lparr>Version := []\<rparr>"
         and m = "''version cannot be empty''"
         and p = "built (example_config [frigate]) (frigate_options\<lparr>Version := []\<rparr>) False"]
    by (simp add: example_defs)
  have 3: "Validate ?d
     (built (example_config []) (frigate_options\<lparr>DoDefaulting := False\<rparr>) False)
     = Inl (NoWebhookTypeSelected ''kubebuilder'')"
    using Validate_ordered_chain
      [where d = ?d
         and p = "built (example_config []) (frigate_options\<lparr>DoDefaulting := False\<rparr>) False"]
    by (simp add: example_defs)
  have 4: "Validate ?d (built (example_config []) frigate_options False)
     = Inl (ResourceNotFound ''kubebuilder'')"
    using Validate_ordered_chain
      [where d = ?d and c = "example_config []" and err = "''resource not found''"
         and p = "built (example_config []) frigate_options False"]
    by (simp add: example_defs)
  have 5: "Validate ?d
     (built (example_config [frigate_v1]) (frigate_options\<lparr>WebhookVersion := ''v1beta1''\<rparr>) False)
     = Inl WebhookAlreadyExists"
    using Validate_ordered_chain
      [where d = ?d and c = "example_config [frigate_v1]" and r = frigate_v1
         and p = "built (example_config [frigate_v1])
                    (frigate_options\<lparr>WebhookVersion := ''v1beta1''\<rparr>) False"]
    by (simp add: example_defs)
  have 6: "Validate ?d
     (built (example_config [frigate_v1]) (frigate_options\<lparr>WebhookVersion := ''v1beta1''\<rparr>) True)
     = Inl (WebhookVersionConflict ''v1beta1'')"
    using Validate_ordered_chain
      [where d = ?d and c = "example_config [frigate_v1]" and r = frigate_v1
         and w = "\<lparr>wh_WebhookVersion = ''v1beta1'', wh_Defaulting = True,
                    wh_Validation = False, wh_Conversion = False\<rparr>"
         and p = "built (example_config [frigate_v1])
                    (frigate_options\<lparr>WebhookVersion := ''v1beta1''\<rparr>) True"]
    by (simp add: example_defs)
  have 7: "Validate ?d (built (example_config [frigate]) frigate_options False) = Inr ()"
    using Validate_ordered_chain
      [where d = ?d and c = "example_config [frigate]" and r = frigate
         and w = "\<lparr>wh_WebhookVersion = ''v1'', wh_Defaulting = True,
                    wh_Validation = False, wh_Conversion = False\<rparr>"
         and p = "built (example_config [frigate]) frigate_options False"]
    by (simp add: example_defs)
  from 1 2 3 4 5 6 7 show ?thesis by blast
qed

section \<open>Webhook-type selection\<close>

text \<open>
  Claim C2, as stated: options with all three webhook-type flags false fail with
  NoWebhookTypeSelected whatever their other fields are. The check is the third of the
  chain, and options that fail a well-formedness check fail with that check's error
  first: the frigate request without kind and without webhook type fails with
  InvalidOption.
\<close>

theorem no_type_selected_regardless_counterexample:
  "\<not> DoDefaulting (frigate_options\<lparr>Kind := [], DoDefaulting := False\<rparr>)
   \<and> \<not> DoValidation (frigate_options\<lparr>Kind := [], DoDefaulting := False\<rparr>)
   \<and> \<not> DoConversion (frigate_options\<lparr>Kind := [], DoDefaulting := False\<rparr>)
   \<and> Run_build
        \<lparr>config = Some (example_config [frigate]), commandName = ''kubebuilder'',
         options = Some (frigate_options\<lparr>Kind := [], DoDefaulting := False\<rparr>),
         resource = Resource_zero, force = False\<rparr>
      = Inr (built (example_config [frigate])
               (frigate_options\<lparr>Kind := [], DoDefaulting := False\<rparr>) False)
   \<and> Validate example_delegates
        (built (example_config [frigate])
           (frigate_options\<lparr>Kind := [], DoDefaulting := False\<rparr>) False)
      = Inl (InvalidOption ''kind cannot be empty'')"
  by (simp add: Validate_def Run_build_def example_defs)

text \<open>
  Claim C2, amended: for all options with the three webhook-type flags false that pass
  the two well-formedness checks, validation of the resource built from them fails with
  NoWebhookTypeSelected, whatever the other option fields, the project configuration
  (even none) and the force flag are.
\<close>

theorem no_type_selected_if_well_formed:
  assumes "options p0 = Some opts"
    and "\<not> DoDefaulting opts" and "\<not> DoValidation opts" and "\<not> DoConversion opts"
    and "Run_build p0 = Inr p"
    and "well_formed d p"
  shows "Validate d p = Inl (NoWebhookTypeSelected (commandName p))"
proof -
  from assms(1,5) have res: "resource p = NewResource opts (config p0)"
    by (auto simp: Run_build_def)
  with assms(2-4) have "\<not> webhook_type_selected (resource p)"
    by (simp add: webhook_type_selected_def HasDefaultingWebhook_def HasValidationWebhook_def
        HasConversionWebhook_def NewResource_def)
  with assms(6) show ?thesis
    by (rule Validate_NoWebhookTypeSelected)
qed

theorem no_type_selected_if_well_formed_witness:
  "Validate example_delegates
     (built (example_config [frigate_v1]) (frigate_options\<lparr>DoDefaulting := False\<rparr>) True)
   = Inl (NoWebhookTypeSelected ''kubebuilder'')
   \<and> Validate example_delegates
     ((built (example_config []) (frigate_options\<lparr>DoDefaulting := False\<rparr>) False)
        \<lparr>config := None\<rparr>)
   = Inl (NoWebhookTypeSelected ''kubebuilder'')"
proof -
  let ?o = "frigate_options\<lparr>DoDefaulting := False\<rparr>"
  have a: "options (built (example_config [frigate_v1]) ?o True) = Some ?o"
    by (simp add: built_def)
  have f: "\<not> DoDefaulting ?o" "\<not> DoValidation ?o" "\<not> DoConversion ?o"
    by (simp_all add: frigate_options_def)
  have b: "Run_build (built (example_config [frigate_v1]) ?o True)
             = Inr (built (example_config [frigate_v1]) ?o True)"
    by (simp add: Run_build_def built_def NewResource_def)
  have w: "well_formed example_delegates (built (example_config [frigate_v1]) ?o True)"
    by (simp add: example_defs)
  let ?q = "(built (example_config []) ?o False)\<lparr>config := None\<rparr>"
  have a': "options ?q = Some ?o"
    by (simp add: built_def)
  have b': "Run_build ?q = Inr ?q"
    by (simp add: Run_build_def built_def NewResource_def)
  have w': "well_formed example_delegates ?q"
    by (simp add: example_defs)
  show ?thesis
    using no_type_selected_if_well_formed [OF a f b w]
      no_type_selected_if_well_formed [OF a' f b' w']
    by (simp add: built_def)
qed

section \<open>Resource existence and non-duplication\<close>

text \<open>
  Claim C4. A GVK is absent from the project configuration when the lookup
  \<^verbatim>\<open>p.config.GetResource(p.resource.GVK)\<close> returns an error. Provided the three earlier
  checks of the chain pass, validation then fails with ResourceNotFound.
\<close>

theorem absent_resource_not_found:
  assumes "well_formed d p" and "webhook_type_selected (resource p)"
    and "config p = Some c"
    and "GetResource c (GVK (resource p)) = Inl err"
  shows "Validate d p = Inl (ResourceNotFound (commandName p))"
  using assms by (rule Validate_ResourceNotFound)

theorem absent_resource_not_found_witness:
  "GetResource (example_config [frigate_v1])
      (GVK (resource (built (example_config [frigate_v1])
                        (frigate_options\<lparr>Kind := ''Cruiser''\<rparr>) True)))
     = Inl ''resource not found''
   \<and> Validate example_delegates
       (built (example_config [frigate_v1]) (frigate_options\<lparr>Kind := ''Cruiser''\<rparr>) True)
     = Inl (ResourceNotFound ''kubebuilder'')"
proof -
  let ?p = "built (example_config [frigate_v1]) (frigate_options\<lparr>Kind := ''Cruiser''\<rparr>) True"
  have w: "well_formed example_delegates ?p" by (simp add: example_defs)
  have s: "webhook_type_selected (resource ?p)" by (simp add: example_defs)
  have c: "config ?p = Some (example_config [frigate_v1])" by (simp add: built_def)
  have g: "GetResource (example_config [frigate_v1]) (GVK (resource ?p))
             = Inl ''resource not found''"
    by (simp add: example_defs)
  from g absent_resource_not_found [OF w s c g] show ?thesis
    by (simp add: built_def)
qed

text \<open>
  Claim C3, as stated: for a resource that is present in the project configuration
  and carries a non-empty webhook descriptor, validation without force fails with
  WebhookAlreadyExists. It does so only when the chain gets that far: a request that
  selects no webhook type fails with NoWebhookTypeSelected, whatever the resource
  carries.
\<close>

theorem already_exists_regardless_counterexample:
  "GetResource (example_config [frigate_v1])
      (GVK (resource (built (example_config [frigate_v1])
                        (frigate_options\<lparr>DoDefaulting := False\<rparr>) False)))
     = Inr frigate_v1
   \<and> carries_webhooks example_delegates frigate_v1
   \<and> \<not> force (built (example_config [frigate_v1])
                (frigate_options\<lparr>DoDefaulting := False\<rparr>) False)
   \<and> Validate example_delegates
       (built (example_config [frigate_v1]) (frigate_options\<lparr>DoDefaulting := False\<rparr>) False)
     = Inl (NoWebhookTypeSelected ''kubebuilder'')"
  by (simp add: Validate_def example_defs)

text \<open>
  Claim C3, amended: for every resource that is present in the project configuration
  and carries a non-empty webhook descriptor, validation without force fails with
  WebhookAlreadyExists provided the three checks before pass (option well-formedness,
  resource well-formedness, webhook-type selection); validation with force never fails
  with WebhookAlreadyExists and, those three checks passing, returns the verdict of the
  remaining check: success when the requested webhook version is compatible.
\<close>

theorem already_exists_unless_forced:
  "(well_formed d p \<and> webhook_type_selected (resource p) \<and> config p = Some c
      \<and> GetResource c (GVK (resource p)) = Inr r \<and> carries_webhooks d r \<and> \<not> force p
    \<longrightarrow> Validate d p = Inl WebhookAlreadyExists)
   \<and> (force p \<longrightarrow> Validate d p \<noteq> Inl WebhookAlreadyExists)
   \<and> (well_formed d p \<and> webhook_type_selected (resource p) \<and> config p = Some c
        \<and> GetResource c (GVK (resource p)) = Inr r \<and> carries_webhooks d r \<and> force p
        \<and> Webhooks (resource p) = Some w
      \<longrightarrow> Validate d p =
            (if IsWebhookVersionCompatible c (wh_WebhookVersion w) then Inr ()
             else Inl (WebhookVersionConflict (wh_WebhookVersion w))))"
proof (intro conjI impI)
  assume "well_formed d p \<and> webhook_type_selected (resource p) \<and> config p = Some c
      \<and> GetResource c (GVK (resource p)) = Inr r \<and> carries_webhooks d r \<and> \<not> force p"
  then show "Validate d p = Inl WebhookAlreadyExists"
    using Validate_WebhookAlreadyExists [of d p c r] by blast
next
  assume "force p"
  then show "Validate d p \<noteq> Inl WebhookAlreadyExists"
    by (rule Validate_forced_never_exists)
next
  assume "well_formed d p \<and> webhook_type_selected (resource p) \<and> config p = Some c
        \<and> GetResource c (GVK (resource p)) = Inr r \<and> carries_webhooks d r \<and> force p
        \<and> Webhooks (resource p) = Some w"
  then show "Validate d p =
            (if IsWebhookVersionCompatible c (wh_WebhookVersion w) then Inr ()
             else Inl (WebhookVersionConflict (wh_WebhookVersion w)))"
    using Validate_version_check [of d p c r w] by blast
qed

text \<open>
  The frigate with its v1 webhook, requested once more for version v1: refused without
  force, accepted with force.
\<close>

theorem already_exists_unless_forced_witness:
  "carries_webhooks example_delegates frigate_v1
   \<and> Validate example_delegates (built (example_config [frigate_v1]) frigate_options False)
     = Inl WebhookAlreadyExists
   \<and> Validate example_delegates (built (example_config [frigate_v1]) frigate_options True)
     \<noteq> Inl WebhookAlreadyExists
   \<and> Validate example_delegates (built (example_config [frigate_v1]) frigate_options True)
     = Inr ()"
proof -
  let ?d = example_delegates
  let ?c = "example_config [frigate_v1]"
  let ?w = "\<lparr>wh_WebhookVersion = ''v1'', wh_Defaulting = True,
              wh_Validation = False, wh_Conversion = False\<rparr>"
  have cw: "carries_webhooks ?d frigate_v1"
    by (simp add: example_defs)
  have 1: "Validate ?d (built ?c frigate_options False) = Inl WebhookAlreadyExists"
    using already_exists_unless_forced
      [where d = ?d and c = ?c and r = frigate_v1 and w = ?w
         and p = "built ?c frigate_options False"]
    by (simp add: example_defs)
  have 2: "Validate ?d (built ?c frigate_options True) \<noteq> Inl WebhookAlreadyExists"
    using already_exists_unless_forced
      [where d = ?d and c = ?c and r = frigate_v1 and w = ?w
         and p = "built ?c frigate_options True"]
    by (simp add: built_def)
  have 3: "Validate ?d (built ?c frigate_options True) = Inr ()"
    using already_exists_unless_forced
      [where d = ?d and c = ?c and r = frigate_v1 and w = ?w
         and p = "built ?c frigate_options True"]
    by (simp add: example_defs)
  from cw 1 2 3 show ?thesis by blast
qed

section \<open>The force flag\<close>

text \<open>
  Claim C9, as stated: with force, every request whose webhook version is incompatible
  with the version the project is committed to fails with WebhookVersionConflict. The
  version check is the last of the chain, and force skips none of the checks before it
  but the non-duplication check: the forced request for a cruiser with webhook version
  v1beta1, in the project that is committed to v1 and holds no cruiser, fails with
  ResourceNotFound.
\<close>

theorem forced_version_conflict_regardless_counterexample:
  "force (built (example_config [frigate_v1])
            (frigate_options\<lparr>Kind := ''Cruiser'', WebhookVersion := ''v1beta1''\<rparr>) True)
   \<and> map_option wh_WebhookVersion
        (Webhooks (resource (built (example_config [frigate_v1])
            (frigate_options\<lparr>Kind := ''Cruiser'', WebhookVersion := ''v1beta1''\<rparr>) True)))
       = Some ''v1beta1''
   \<and> \<not> IsWebhookVersionCompatible (example_config [frigate_v1]) ''v1beta1''
   \<and> Validate example_delegates
        (built (example_config [frigate_v1])
           (frigate_options\<lparr>Kind := ''Cruiser'', WebhookVersion := ''v1beta1''\<rparr>) True)
       = Inl (ResourceNotFound ''kubebuilder'')"
  by (simp add: Validate_def example_defs)

text \<open>
  Claim C9, amended. Force bypasses only the non-duplication check. First line: whatever
  validation returns without force, other than WebhookAlreadyExists (success, or the
  failure of a well-formedness check, of the webhook-type selection, of the resource
  lookup or of the version check), it also returns with force. Second line: where
  validation without force fails with WebhookAlreadyExists, validation with force goes
  on to the version check and returns its verdict. Third line: with force, a request
  whose webhook version is incompatible with the project never validates, and it fails
  with WebhookVersionConflict when the four checks before the non-duplication check
  pass.
\<close>

theorem force_bypasses_only_duplication:
  "(Validate d (p\<lparr>force := False\<rparr>) \<noteq> Inl WebhookAlreadyExists
      \<longrightarrow> Validate d (p\<lparr>force := True\<rparr>) = Validate d (p\<lparr>force := False\<rparr>))
   \<and> (Validate d (p\<lparr>force := False\<rparr>) = Inl WebhookAlreadyExists
        \<and> config p = Some c \<and> Webhooks (resource p) = Some w
      \<longrightarrow> Validate d (p\<lparr>force := True\<rparr>) =
            (if IsWebhookVersionCompatible c (wh_WebhookVersion w) then Inr ()
             else Inl (WebhookVersionConflict (wh_WebhookVersion w))))
   \<and> (force p \<and> config p = Some c \<and> Webhooks (resource p) = Some w
        \<and> \<not> IsWebhookVersionCompatible c (wh_WebhookVersion w)
      \<longrightarrow> Validate d p \<noteq> Inr ()
          \<and> (well_formed d p \<and> webhook_type_selected (resource p)
                \<and> (\<exists>r. GetResource c (GVK (resource p)) = Inr r)
              \<longrightarrow> Validate d p = Inl (WebhookVersionConflict (wh_WebhookVersion w))))"
proof (intro conjI impI)
  assume "Validate d (p\<lparr>force := False\<rparr>) \<noteq> Inl WebhookAlreadyExists"
  then show "Validate d (p\<lparr>force := True\<rparr>) = Validate d (p\<lparr>force := False\<rparr>)"
    by (rule Validate_force_irrelevant)
next
  assume a: "Validate d (p\<lparr>force := False\<rparr>) = Inl WebhookAlreadyExists
        \<and> config p = Some c \<and> Webhooks (resource p) = Some w"
  from Validate_exists_reached [of d "p\<lparr>force := False\<rparr>"] a
  obtain r where "well_formed d (p\<lparr>force := True\<rparr>)"
    "webhook_type_selected (resource (p\<lparr>force := True\<rparr>))"
    "config (p\<lparr>force := True\<rparr>) = Some c"
    "GetResource c (GVK (resource (p\<lparr>force := True\<rparr>))) = Inr r"
    "\<not> carries_webhooks d r \<or> force (p\<lparr>force := True\<rparr>)"
    "Webhooks (resource (p\<lparr>force := True\<rparr>)) = Some w"
    by (auto simp: well_formed_force)
  then show "Validate d (p\<lparr>force := True\<rparr>) =
            (if IsWebhookVersionCompatible c (wh_WebhookVersion w) then Inr ()
             else Inl (WebhookVersionConflict (wh_WebhookVersion w)))"
    by (rule Validate_version_check)
next
  assume a: "force p \<and> config p = Some c \<and> Webhooks (resource p) = Some w
        \<and> \<not> IsWebhookVersionCompatible c (wh_WebhookVersion w)"
  then show "Validate d p \<noteq> Inr ()"
    using Validate_incompatible_fails [of p c w d] by simp
next
  assume a: "force p \<and> config p = Some c \<and> Webhooks (resource p) = Some w
        \<and> \<not> IsWebhookVersionCompatible c (wh_WebhookVersion w)"
    and b: "well_formed d p \<and> webhook_type_selected (resource p)
                \<and> (\<exists>r. GetResource c (GVK (resource p)) = Inr r)"
  from b obtain r where r: "GetResource c (GVK (resource p)) = Inr r" by blast
  from a have "\<not> carries_webhooks d r \<or> force p" by simp
  from Validate_version_check [OF _ _ _ r this, where w = w] a b
  show "Validate d p = Inl (WebhookVersionConflict (wh_WebhookVersion w))"
    by simp
qed

text \<open>
  With force: the resource that carries a v1 webhook and a request for v1beta1 fail on
  the version; a request without kind, one without webhook type and one for a resource
  the project does not have fail as they do without force.
\<close>

theorem force_bypasses_only_duplication_witness:
  "Validate example_delegates
     (built (example_config [frigate_v1]) (frigate_options\<lparr>WebhookVersion := ''v1beta1''\<rparr>) False)
     = Inl WebhookAlreadyExists
   \<and> Validate example_delegates
     (built (example_config [frigate_v1]) (frigate_options\<lparr>WebhookVersion := ''v1beta1''\<rparr>) True)
     = Inl (WebhookVersionConflict ''v1beta1'')
   \<and> Validate example_delegates
     (built (example_config [frigate_v1]) (frigate_options\<lparr>Kind := []\<rparr>) True)
     = Inl (InvalidOption ''kind cannot be empty'')
   \<and> Validate example_delegates
     (built (example_config [frigate_v1]) (frigate_options\<lparr>DoDefaulting := False\<rparr>) True)
     = Inl (NoWebhookTypeSelected ''kubebuilder'')
   \<and> Validate example_delegates
     (built (example_config []) frigate_options True)
     = Inl (ResourceNotFound ''kubebuilder'')"
proof -
  let ?d = example_delegates
  let ?c = "example_config [frigate_v1]"
  let ?w = "\<lparr>wh_WebhookVersion = ''v1beta1'', wh_Defaulting = True,
              wh_Validation = False, wh_Conversion = False\<rparr>"
  have upd: "(built c opts f)\<lparr>force := g\<rparr> = built c opts g" for c opts f g
    by (simp add: built_def)
  let ?p = "built ?c (frigate_options\<lparr>WebhookVersion := ''v1beta1''\<rparr>) False"
  have 1: "Validate ?d ?p = Inl WebhookAlreadyExists"
    by (simp add: Validate_def example_defs)
  have 2: "Validate ?d (built ?c (frigate_options\<lparr>WebhookVersion := ''v1beta1''\<rparr>) True)
             = Inl (WebhookVersionConflict ''v1beta1'')"
    using 1 force_bypasses_only_duplication [where d = ?d and p = ?p and c = ?c and w = ?w]
    by (simp add: upd) (simp add: example_defs)
  have 3: "Validate ?d (built ?c (frigate_options\<lparr>Kind := []\<rparr>) False)
             = Inl (InvalidOption ''kind cannot be empty'')"
    by (simp add: Validate_def example_defs)
  have 4: "Validate ?d (built ?c (frigate_options\<lparr>Kind := []\<rparr>) True)
             = Inl (InvalidOption ''kind cannot be empty'')"
    using 3 force_bypasses_only_duplication
      [where d = ?d and p = "built ?c (frigate_options\<lparr>Kind := []\<rparr>) False"]
    by (simp add: upd)
  have 5: "Validate ?d (built ?c (frigate_options\<lparr>DoDefaulting := False\<rparr>) False)
             = Inl (NoWebhookTypeSelected ''kubebuilder'')"
    by (simp add: Validate_def example_defs)
  have 6: "Validate ?d (built ?c (frigate_options\<lparr>DoDefaulting := False\<rparr>) True)
             = Inl (NoWebhookTypeSelected ''kubebuilder'')"
    using 5 force_bypasses_only_duplication
      [where d = ?d and p = "built ?c (frigate_options\<lparr>DoDefaulting := False\<rparr>) False"]
    by (simp add: upd)
  have 7: "Validate ?d (built (example_config []) frigate_options False)
             = Inl (ResourceNotFound ''kubebuilder'')"
    by (simp add: Validate_def example_defs)
  have 8: "Validate ?d (built (example_config []) frigate_options True)
             = Inl (ResourceNotFound ''kubebuilder'')"
    using 7 force_bypasses_only_duplication
      [where d = ?d and p = "built (example_config []) frigate_options False"]
    by (simp add: upd)
  from 1 2 4 6 8 show ?thesis by blast
qed

section \<open>Project-wide webhook version\<close>

text \<open>
  Claim C5, as stated: in a project whose committed webhook version is v1, a request
  for v1beta1 fails with WebhookVersionConflict and a request for v1 succeeds. The
  version check is the last of the chain. In the project whose only resource carries
  the v1 webhook, the request that scaffolded it, made again without force, fails with
  WebhookAlreadyExists, and so does the same request for v1beta1.
\<close>

theorem version_policy_regardless_counterexample:
  "committed_webhook_version (Webhooks_IsEmpty example_delegates)
      \<lparr>proj_Domain = ''example.com'', proj_Resources = [frigate_v1]\<rparr> = Some ''v1''
   \<and> WebhookVersion frigate_options = ''v1''
   \<and> Validate example_delegates (built (example_config [frigate_v1]) frigate_options False)
       = Inl WebhookAlreadyExists
   \<and> Validate example_delegates
        (built (example_config [frigate_v1])
           (frigate_options\<lparr>WebhookVersion := ''v1beta1''\<rparr>) False)
       = Inl WebhookAlreadyExists"
  by (simp add: Validate_def example_defs)

text \<open>
  Claim C5, amended: in a project whose committed webhook version is v1, every request
  that passes the five checks before the version check (well-formed options and
  resource, a webhook type selected, the resource declared in the project and either
  without a webhook descriptor of its own or requested with force) fails with
  WebhookVersionConflict when it asks for webhook version v1beta1, or for any version
  other than v1, and succeeds when it asks for v1.
\<close>

theorem committed_version_policy:
  assumes "committed_webhook_version (Webhooks_IsEmpty d) pr = Some ''v1''"
    and "config p0 = Some (project_config (Webhooks_IsEmpty d) pr)"
    and "options p0 = Some opts"
    and "Run_build p0 = Inr p"
    and "well_formed d p"
    and "DoDefaulting opts \<or> DoValidation opts \<or> DoConversion opts"
    and "GetResource (project_config (Webhooks_IsEmpty d) pr) (GVK (resource p)) = Inr r"
    and "\<not> carries_webhooks d r \<or> force p"
  shows "(WebhookVersion opts = ''v1beta1''
            \<longrightarrow> Validate d p = Inl (WebhookVersionConflict ''v1beta1''))
       \<and> (WebhookVersion opts \<noteq> ''v1''
            \<longrightarrow> Validate d p = Inl (WebhookVersionConflict (WebhookVersion opts)))
       \<and> (WebhookVersion opts = ''v1'' \<longrightarrow> Validate d p = Inr ())"
proof -
  let ?c = "project_config (Webhooks_IsEmpty d) pr"
  let ?w = "\<lparr>wh_WebhookVersion = WebhookVersion opts, wh_Defaulting = DoDefaulting opts,
              wh_Validation = DoValidation opts, wh_Conversion = DoConversion opts\<rparr>"
  have p: "p = p0\<lparr>resource := NewResource opts (config p0)\<rparr>"
    using assms(3,4) by (rule Run_build_resource)
  have sel: "webhook_type_selected (resource p)"
    using assms(6) by (simp add: p NewResource_selected)
  have c: "config p = Some ?c"
    using assms(2) by (simp add: p)
  have w: "Webhooks (resource p) = Some ?w"
    by (simp add: p NewResource_def)
  have "Validate d p =
          (if IsWebhookVersionCompatible ?c (wh_WebhookVersion ?w) then Inr ()
           else Inl (WebhookVersionConflict (wh_WebhookVersion ?w)))"
    using assms(5) sel c assms(7,8) w by (rule Validate_version_check)
  then have "Validate d p =
          (if WebhookVersion opts = ''v1'' then Inr ()
           else Inl (WebhookVersionConflict (WebhookVersion opts)))"
    by (simp add: committed_version_compatible [OF assms(1)])
  then show ?thesis by simp
qed

text \<open>
  The project holds the frigate with its v1 webhook and the cruiser without one; the
  requests are for the cruiser.
\<close>

theorem committed_version_policy_witness:
  "committed_webhook_version (Webhooks_IsEmpty example_delegates)
      \<lparr>proj_Domain = ''example.com'', proj_Resources = [frigate_v1, cruiser]\<rparr> = Some ''v1''
   \<and> Validate example_delegates
        (built (example_config [frigate_v1, cruiser])
           (frigate_options\<lparr>Kind := ''Cruiser'', WebhookVersion := ''v1beta1''\<rparr>) False)
       = Inl (WebhookVersionConflict ''v1beta1'')
   \<and> Validate example_delegates
        (built (example_config [frigate_v1, cruiser])
           (frigate_options\<lparr>Kind := ''Cruiser''\<rparr>) False)
       = Inr ()"
proof -
  let ?d = example_delegates
  let ?pr = "\<lparr>proj_Domain = ''example.com'', proj_Resources = [frigate_v1, cruiser]\<rparr>"
  let ?c = "example_config [frigate_v1, cruiser]"
  have cfg: "?c = project_config (Webhooks_IsEmpty ?d) ?pr"
    by (simp add: example_config_def)
  have cv: "committed_webhook_version (Webhooks_IsEmpty ?d) ?pr = Some ''v1''"
    by (simp add: example_defs)
  have h: "config (built ?c opts False) = Some (project_config (Webhooks_IsEmpty ?d) ?pr)"
    "options (built ?c opts False) = Some opts"
    "Run_build (built ?c opts False) = Inr (built ?c opts False)" for opts
    by (simp_all add: built_def Run_build_def example_config_def)
  let ?o1 = "frigate_options\<lparr>Kind := ''Cruiser'', WebhookVersion := ''v1beta1''\<rparr>"
  let ?o2 = "frigate_options\<lparr>Kind := ''Cruiser''\<rparr>"
  have wf: "well_formed ?d (built ?c ?o1 False)" "well_formed ?d (built ?c ?o2 False)"
    by (simp_all add: example_defs)
  have sel: "DoDefaulting ?o1 \<or> DoValidation ?o1 \<or> DoConversion ?o1"
    "DoDefaulting ?o2 \<or> DoValidation ?o2 \<or> DoConversion ?o2"
    by (simp_all add: frigate_options_def)
  have g: "GetResource (project_config (Webhooks_IsEmpty ?d) ?pr)
             (GVK (resource (built ?c ?o1 False))) = Inr cruiser"
    "GetResource (project_config (Webhooks_IsEmpty ?d) ?pr)
             (GVK (resource (built ?c ?o2 False))) = Inr cruiser"
    by (simp_all add: example_defs)
  have nd: "\<not> carries_webhooks ?d cruiser \<or> force (built ?c ?o1 False)"
    "\<not> carries_webhooks ?d cruiser \<or> force (built ?c ?o2 False)"
    by (simp_all add: example_defs)
  from committed_version_policy [OF cv h wf(1) sel(1) g(1) nd(1)]
    committed_version_policy [OF cv h wf(2) sel(2) g(2) nd(2)] cv
  show ?thesis
    by (simp add: frigate_options_def)
qed

section \<open>Acquiring the scaffolder\<close>

text \<open>
  Claim C8. \<^verbatim>\<open>GetScaffolder\<close> fails exactly when reading the file at the fixed relative
  path hack/boilerplate.go.txt fails, and then with BoilerplateLoadFailure (first two
  lines); otherwise it returns the scaffolder handle constructed from the project
  configuration, the content of that file, the built resource and the force flag
  (third line). No other file is read: two file systems that agree on that path give
  the same result (fourth line).
\<close>

theorem GetScaffolder_boilerplate:
  "((\<exists>err. GetScaffolder readFile p = Inl (BoilerplateLoadFailure err))
      \<longleftrightarrow> (\<exists>err. readFile ''hack/boilerplate.go.txt'' = Inl err))
   \<and> (\<forall>e. GetScaffolder readFile p = Inl e
         \<longrightarrow> (\<exists>err. readFile ''hack/boilerplate.go.txt'' = Inl err
                 \<and> e = BoilerplateLoadFailure err))
   \<and> (\<forall>bp. readFile ''hack/boilerplate.go.txt'' = Inr bp
         \<longrightarrow> GetScaffolder readFile p
               = Inr (NewWebhookScaffolder (config p) bp (resource p) (force p)))
   \<and> (readFile' ''hack/boilerplate.go.txt'' = readFile ''hack/boilerplate.go.txt''
         \<longrightarrow> GetScaffolder readFile' p = GetScaffolder readFile p)"
proof -
  have path: "filepath_Join ''hack'' ''boilerplate.go.txt'' = ''hack/boilerplate.go.txt''"
    by (simp add: filepath_Join_def)
  show ?thesis
    by (cases "readFile ''hack/boilerplate.go.txt''")
      (simp_all add: GetScaffolder_def path)
qed

theorem GetScaffolder_boilerplate_witness:
  "GetScaffolder (\<lambda>path. Inl (''open '' @ path @ '': no such file or directory''))
      (built (example_config [frigate]) frigate_options False)
     = Inl (BoilerplateLoadFailure ''open hack/boilerplate.go.txt: no such file or directory'')
   \<and> GetScaffolder
       (\<lambda>path. if path = ''hack/boilerplate.go.txt'' then Inr ''// Copyright''
               else Inl (''open '' @ path @ '': no such file or directory''))
       (built (example_config [frigate]) frigate_options True)
     = Inr (NewWebhookScaffolder (Some (example_config [frigate])) ''// Copyright''
              (NewResource frigate_options (Some (example_config [frigate]))) True)"
proof -
  let ?p = "built (example_config [frigate]) frigate_options"
  let ?f1 = "\<lambda>path. Inl (''open '' @ path @ '': no such file or directory'') :: string + string"
  let ?f2 = "\<lambda>path. if path = ''hack/boilerplate.go.txt'' then Inr ''// Copyright''
               else Inl (''open '' @ path @ '': no such file or directory'') :: string + string"
  have "\<exists>err. GetScaffolder ?f1 (?p False) = Inl (BoilerplateLoadFailure err)"
    using GetScaffolder_boilerplate [where readFile = ?f1 and readFile' = ?f1 and p = "?p False"] by simp
  then obtain err where e: "GetScaffolder ?f1 (?p False) = Inl (BoilerplateLoadFailure err)"
    by blast
  with GetScaffolder_boilerplate [where readFile = ?f1 and readFile' = ?f1 and p = "?p False"]
  have 1: "GetScaffolder ?f1 (?p False)
     = Inl (BoilerplateLoadFailure ''open hack/boilerplate.go.txt: no such file or directory'')"
    by auto
  have 2: "GetScaffolder ?f2 (?p True)
     = Inr (NewWebhookScaffolder (Some (example_config [frigate])) ''// Copyright''
              (NewResource frigate_options (Some (example_config [frigate]))) True)"
    using GetScaffolder_boilerplate [where readFile = ?f2 and readFile' = ?f2 and p = "?p True"]
    by (simp add: built_def)
  from 1 2 show ?thesis by simp
qed

section \<open>Failed validation\<close>

text \<open>
  Claim C7. \<^verbatim>\<open>Validate\<close> never modifies the options, the built resource or the
  configuration: as a statement over the state it ends, on every path, in the state it
  started from, the project state included (lines one to four), and what it returns is
  the result of the chain of checks (line five). On any failure of \<^verbatim>\<open>Validate\<close> the
  invocation aborts: the orchestrator returns that failure in the unchanged state, so
  no scaffolder was acquired and the project state was not touched, whatever the file
  system and the scaffolder would have done (line six); and \<^verbatim>\<open>Run\<close> returns it in the state
  in which only its own assignment of the built resource has happened (line seven). Of
  the configuration \<^verbatim>\<open>Validate\<close> reads the lookup of the resource's GVK and the
  compatibility of the requested webhook version, and nothing else: from two states
  that differ in the configuration only, and whose configurations agree on these two
  answers, it returns the same (last line).
\<close>

theorem failed_validation_aborts:
  "snd (Validate_st d s) = s
   \<and> options (this (snd (Validate_st d s))) = options (this s)
   \<and> resource (this (snd (Validate_st d s))) = resource (this s)
   \<and> config (this (snd (Validate_st d s))) = config (this s)
   \<and> fst (Validate_st d s) = Validate d (this s)
   \<and> (fst (Validate_st d s) = Inl e
      \<longrightarrow> cmdutil_Run d x s = (Inl e, s)
        \<and> acquired (snd (cmdutil_Run d x s)) = acquired s
        \<and> project_state (snd (cmdutil_Run d x s)) = project_state s)
   \<and> (Run_build (this s) = Inr p \<and> fst (Validate_st d (s\<lparr>this := p\<rparr>)) = Inl e
      \<longrightarrow> Run d x s = (Inl e, s\<lparr>this := p\<rparr>)
        \<and> acquired (snd (Run d x s)) = acquired s
        \<and> project_state (snd (Run d x s)) = project_state s)
   \<and> (GetResource c (GVK (resource (this s))) = GetResource c' (GVK (resource (this s)))
        \<and> (\<forall>wh. Webhooks (resource (this s)) = Some wh
              \<longrightarrow> IsWebhookVersionCompatible c (wh_WebhookVersion wh)
                    = IsWebhookVersionCompatible c' (wh_WebhookVersion wh))
      \<longrightarrow> fst (Validate_st d (s\<lparr>this := (this s)\<lparr>config := Some c\<rparr>\<rparr>))
          = fst (Validate_st d (s\<lparr>this := (this s)\<lparr>config := Some c'\<rparr>\<rparr>)))"
proof -
  have unchanged: "snd (Validate_st d s) = s" and result: "fst (Validate_st d s) = Validate d (this s)"
    by (simp_all add: Validate_st_eq)
  have abort: "cmdutil_Run d x s = (Inl e, s)
        \<and> acquired (snd (cmdutil_Run d x s)) = acquired s
        \<and> project_state (snd (cmdutil_Run d x s)) = project_state s"
    if "fst (Validate_st d s) = Inl e"
    using that cmdutil_Run_failed [of d s e x] by (simp add: Validate_st_eq)
  have abort_Run: "Run d x s = (Inl e, s\<lparr>this := p\<rparr>)
        \<and> acquired (snd (Run d x s)) = acquired s
        \<and> project_state (snd (Run d x s)) = project_state s"
    if "Run_build (this s) = Inr p \<and> fst (Validate_st d (s\<lparr>this := p\<rparr>)) = Inl e"
    using that Run_failed [of s p d e x] by (simp add: Validate_st_eq)
  have frame: "fst (Validate_st d (s\<lparr>this := (this s)\<lparr>config := Some c\<rparr>\<rparr>))
          = fst (Validate_st d (s\<lparr>this := (this s)\<lparr>config := Some c'\<rparr>\<rparr>))"
    if "GetResource c (GVK (resource (this s))) = GetResource c' (GVK (resource (this s)))
        \<and> (\<forall>wh. Webhooks (resource (this s)) = Some wh
              \<longrightarrow> IsWebhookVersionCompatible c (wh_WebhookVersion wh)
                    = IsWebhookVersionCompatible c' (wh_WebhookVersion wh))"
    using that Validate_reads_config [of c "this s" c' d] by (simp add: Validate_st_eq)
  from unchanged result abort abort_Run frame show ?thesis
    by simp
qed

text \<open>
  The project state is the list of the project's files; the scaffolder of the example
  adds one. The request for a resource the project does not have ends in the state in
  which only the resource was built: no handle, the files as they were. The accepted
  request shows that handle and files do change once validation has passed. The two
  configurations of the last line differ in their domain and in the cruiser.
\<close>

theorem failed_validation_aborts_witness:
  "Validate_st example_delegates
      \<lparr>this = built (example_config []) frigate_options False,
       project_state = [''hack/boilerplate.go.txt''], acquired = None\<rparr>
     = (Inl (ResourceNotFound ''kubebuilder''),
        \<lparr>this = built (example_config []) frigate_options False,
         project_state = [''hack/boilerplate.go.txt''], acquired = None\<rparr>)
   \<and> Run example_delegates
      \<lparr>ReadFile = (\<lambda>w path. if path \<in> set w then Inr ''// Copyright'' else Inl ''no such file''),
       Scaffold = (\<lambda>sc w. (None, ''api/v1beta1/frigate_webhook.go'' # w))\<rparr>
      \<lparr>this = (built (example_config []) frigate_options False)\<lparr>resource := Resource_zero\<rparr>,
       project_state = [''hack/boilerplate.go.txt''], acquired = None\<rparr>
     = (Inl (ResourceNotFound ''kubebuilder''),
        \<lparr>this = built (example_config []) frigate_options False,
         project_state = [''hack/boilerplate.go.txt''], acquired = None\<rparr>)
   \<and> Run example_delegates
      \<lparr>ReadFile = (\<lambda>w path. if path \<in> set w then Inr ''// Copyright'' else Inl ''no such file''),
       Scaffold = (\<lambda>sc w. (None, ''api/v1beta1/frigate_webhook.go'' # w))\<rparr>
      \<lparr>this = (built (example_config [frigate]) frigate_options False)\<lparr>resource := Resource_zero\<rparr>,
       project_state = [''hack/boilerplate.go.txt''], acquired = None\<rparr>
     = (Inr (),
        \<lparr>this = built (example_config [frigate]) frigate_options False,
         project_state = [''api/v1beta1/frigate_webhook.go'', ''hack/boilerplate.go.txt''],
         acquired = Some (NewWebhookScaffolder (Some (example_config [frigate])) ''// Copyright''
                            (NewResource frigate_options (Some (example_config [frigate]))) False)\<rparr>)
   \<and> Validate example_delegates (built (example_config [frigate]) frigate_options False)
     = Validate example_delegates
         ((built (example_config [frigate]) frigate_options False)
            \<lparr>config := Some ((example_config [frigate, cruiser])\<lparr>GetDomain := ''example.org''\<rparr>)\<rparr>)"
proof -
  let ?d = example_delegates
  let ?x = "\<lparr>ReadFile = (\<lambda>w path. if path \<in> set w then Inr ''// Copyright'' else Inl ''no such file''),
       Scaffold = (\<lambda>sc w. (None, ''api/v1beta1/frigate_webhook.go'' # w))\<rparr>
       :: string list externals"
  let ?w = "[''hack/boilerplate.go.txt'']"
  let ?p = "built (example_config []) frigate_options False"
  let ?s = "\<lparr>this = ?p, project_state = ?w, acquired = None\<rparr>"
  let ?start = "\<lparr>this = ?p\<lparr>resource := Resource_zero\<rparr>, project_state = ?w, acquired = None\<rparr>"
  let ?c = "example_config [frigate]"
  let ?c' = "(example_config [frigate, cruiser])\<lparr>GetDomain := ''example.org''\<rparr>"
  let ?q = "built ?c frigate_options False"
  let ?t = "\<lparr>this = ?q, project_state = ?w, acquired = None\<rparr>"
  have v: "Validate ?d ?p = Inl (ResourceNotFound ''kubebuilder'')"
    by (simp add: Validate_def example_defs)
  note inst = failed_validation_aborts
    [where d = ?d and s = ?s and x = ?x and p = ?p and c = ?c and c' = ?c'
       and e = "ResourceNotFound ''kubebuilder''"]
  have 1: "Validate_st ?d ?s = (Inl (ResourceNotFound ''kubebuilder''), ?s)"
    using inst v by (simp add: prod_eq_iff)
  have b: "Run_build (this ?start) = Inr ?p"
    by (simp add: Run_build_def built_def)
  have 2: "Run ?d ?x ?start = (Inl (ResourceNotFound ''kubebuilder''), ?s)"
    using failed_validation_aborts
      [where d = ?d and s = ?start and x = ?x and p = ?p and c = ?c and c' = ?c'
         and e = "ResourceNotFound ''kubebuilder''"] b 1
    by simp
  have vq: "Validate ?d ?q = Inr ()"
    by (simp add: Validate_def example_defs)
  have 3: "Run ?d ?x
      \<lparr>this = ?q\<lparr>resource := Resource_zero\<rparr>, project_state = ?w, acquired = None\<rparr>
     = (Inr (),
        \<lparr>this = ?q,
         project_state = [''api/v1beta1/frigate_webhook.go'', ''hack/boilerplate.go.txt''],
         acquired = Some (NewWebhookScaffolder (Some ?c) ''// Copyright''
                            (NewResource frigate_options (Some ?c)) False)\<rparr>)"
    by (simp add: Run_def cmdutil_Run_def Scaffold_st_def statement_defs Validate_st_eq
        GetScaffolder_st_eq GetScaffolder_def filepath_Join_def PostScaffold_def built_def
        vq [unfolded built_def])
  have g: "GetResource ?c (GVK (resource (this ?t))) = GetResource ?c' (GVK (resource (this ?t)))"
    by (simp add: example_defs)
  have k: "\<forall>wh. Webhooks (resource (this ?t)) = Some wh
              \<longrightarrow> IsWebhookVersionCompatible ?c (wh_WebhookVersion wh)
                    = IsWebhookVersionCompatible ?c' (wh_WebhookVersion wh)"
    by (simp add: example_defs)
  note inst' = failed_validation_aborts
    [where d = ?d and s = ?t and x = ?x and p = ?q and c = ?c and c' = ?c'
       and e = "ResourceNotFound ''kubebuilder''"]
  have "fst (Validate_st ?d (?t\<lparr>this := (this ?t)\<lparr>config := Some ?c\<rparr>\<rparr>))
          = fst (Validate_st ?d (?t\<lparr>this := (this ?t)\<lparr>config := Some ?c'\<rparr>\<rparr>))"
    using inst' g k by blast
  then have 4: "Validate ?d ?q = Validate ?d (?q\<lparr>config := Some ?c'\<rparr>)"
    by (simp add: Validate_st_eq built_def)
  show ?thesis
    by (intro conjI) (rule 1, rule 2, rule 3, rule 4)
qed

section \<open>Flags and defaults\<close>

text \<open>
  Claim C10. The domain of the resource is never the user's to set. Binding the flags
  of a subcommand into which the configuration \<open>c\<close> was injected succeeds, registers no
  flag named domain, and leaves the domain of \<open>c\<close> in the options. Whatever command
  line is then parsed with success, it did not name a flag domain, the options' domain
  and the configuration are still those, and the resource that \<^verbatim>\<open>Run\<close> builds has the
  domain of the project configuration.
\<close>

theorem domain_from_config:
  "\<exists>p1 fs. BindFlags (InjectConfig p0 c) [] = Inr (p1, fs)
     \<and> ''domain'' \<notin> flag_name ` set fs
     \<and> config p1 = Some c
     \<and> map_option Domain (options p1) = Some (GetDomain c)
     \<and> (\<forall>args p2. Parse fs args p1 = Inr p2 \<longrightarrow>
           ''domain'' \<notin> fst ` set args
         \<and> config p2 = Some c
         \<and> map_option Domain (options p2) = Some (GetDomain c)
         \<and> (\<exists>p3. Run_build p2 = Inr p3 \<and> config p3 = Some c
                \<and> gvk_Domain (GVK (resource p3)) = GetDomain c))"
proof -
  let ?p1 = "p0\<lparr>config := Some c,
             options := Some (Options_zero\<lparr>Domain := GetDomain c, WebhookVersion := ''v1''\<rparr>),
             force := False\<rparr>"
  let ?fs = "[StringFlag ''group'' Ptr_Group [],
                StringFlag ''version'' Ptr_Version [],
                StringFlag ''kind'' Ptr_Kind [],
                StringFlag ''plural'' Ptr_Plural [],
                StringFlag ''webhook-version'' Ptr_WebhookVersion ''v1'',
                BoolFlag ''defaulting'' Ptr_DoDefaulting False,
                BoolFlag ''programmatic-validation'' Ptr_DoValidation False,
                BoolFlag ''conversion'' Ptr_DoConversion False,
                BoolFlag ''force'' Ptr_force False]"
  have bind: "BindFlags (InjectConfig p0 c) [] = Inr (?p1, ?fs)"
    using BindFlags_InjectConfig [of p0 c "[]"] by simp
  have names: "''domain'' \<notin> flag_name ` set ?fs"
    by simp
  have targets: "\<And>n v. StringFlag n Ptr_Domain v \<notin> set ?fs"
    by simp
  have after: "''domain'' \<notin> fst ` set args
         \<and> config p2 = Some c
         \<and> map_option Domain (options p2) = Some (GetDomain c)
         \<and> (\<exists>p3. Run_build p2 = Inr p3 \<and> config p3 = Some c
                \<and> gvk_Domain (GVK (resource p3)) = GetDomain c)"
    if parse: "Parse ?fs args ?p1 = Inr p2" for args p2
  proof -
    have 1: "''domain'' \<notin> fst ` set args"
      using names parse by (rule Parse_unknown_flag)
    have 2: "config p2 = Some c"
      using Parse_frame [OF parse] by simp
    have "map_option Domain (options p2) = map_option Domain (options ?p1)"
      using targets parse by (rule Parse_keeps_Domain)
    then have 3: "map_option Domain (options p2) = Some (GetDomain c)"
      by simp
    then obtain opts where o: "options p2 = Some opts" and d: "Domain opts = GetDomain c"
      by (cases "options p2") auto
    have "Run_build p2 = Inr (p2\<lparr>resource := NewResource opts (config p2)\<rparr>)"
      by (simp add: Run_build_def o)
    with 2 d have "\<exists>p3. Run_build p2 = Inr p3 \<and> config p3 = Some c
                \<and> gvk_Domain (GVK (resource p3)) = GetDomain c"
      by (simp add: NewResource_def)
    with 1 2 3 show ?thesis by blast
  qed
  have "BindFlags (InjectConfig p0 c) [] = Inr (?p1, ?fs)
     \<and> ''domain'' \<notin> flag_name ` set ?fs
     \<and> config ?p1 = Some c
     \<and> map_option Domain (options ?p1) = Some (GetDomain c)
     \<and> (\<forall>args p2. Parse ?fs args ?p1 = Inr p2 \<longrightarrow>
           ''domain'' \<notin> fst ` set args
         \<and> config p2 = Some c
         \<and> map_option Domain (options p2) = Some (GetDomain c)
         \<and> (\<exists>p3. Run_build p2 = Inr p3 \<and> config p3 = Some c
                \<and> gvk_Domain (GVK (resource p3)) = GetDomain c))"
    using bind names after by simp
  then show ?thesis by blast
qed

text \<open>
  On the configuration of the example project: the frigate request is parsed, the
  resource built from it has the project's domain example.com, and a command line that
  names a flag domain is refused.
\<close>

theorem domain_from_config_witness:
  "\<exists>p1 fs p2 p3.
      BindFlags (InjectConfig createWebhookSubcommand_zero (example_config [frigate])) []
        = Inr (p1, fs)
    \<and> Parse fs [(''group'', StringValue ''ship''), (''version'', StringValue ''v1beta1''),
                 (''kind'', StringValue ''Frigate''), (''defaulting'', BoolValue True)] p1
        = Inr p2
    \<and> Run_build p2 = Inr p3
    \<and> gvk_Domain (GVK (resource p3)) = ''example.com''
    \<and> (\<exists>e. Parse fs [(''domain'', StringValue ''example.org'')] p1 = Inl e)"
proof -
  let ?c = "example_config [frigate]"
  let ?z = createWebhookSubcommand_zero
  let ?args = "[(''group'', StringValue ''ship''), (''version'', StringValue ''v1beta1''),
                 (''kind'', StringValue ''Frigate''), (''defaulting'', BoolValue True)]"
  from domain_from_config [of ?z ?c]
  obtain p1 fs where bind: "BindFlags (InjectConfig ?z ?c) [] = Inr (p1, fs)"
    and after: "\<And>args p2. Parse fs args p1 = Inr p2 \<Longrightarrow>
           ''domain'' \<notin> fst ` set args
         \<and> (\<exists>p3. Run_build p2 = Inr p3 \<and> config p3 = Some ?c
                \<and> gvk_Domain (GVK (resource p3)) = GetDomain ?c)"
    by blast
  from bind BindFlags_InjectConfig [of ?z ?c "[]"]
  have p1: "p1 = ?z\<lparr>config := Some ?c,
             options := Some (Options_zero\<lparr>Domain := GetDomain ?c, WebhookVersion := ''v1''\<rparr>),
             force := False\<rparr>"
    and fs: "fs = [StringFlag ''group'' Ptr_Group [],
                StringFlag ''version'' Ptr_Version [],
                StringFlag ''kind'' Ptr_Kind [],
                StringFlag ''plural'' Ptr_Plural [],
                StringFlag ''webhook-version'' Ptr_WebhookVersion ''v1'',
                BoolFlag ''defaulting'' Ptr_DoDefaulting False,
                BoolFlag ''programmatic-validation'' Ptr_DoValidation False,
                BoolFlag ''conversion'' Ptr_DoConversion False,
                BoolFlag ''force'' Ptr_force False]"
    by simp_all
  have "\<exists>p2. Parse fs ?args p1 = Inr p2"
    by (simp add: p1 fs)
  then obtain p2 where parse: "Parse fs ?args p1 = Inr p2" by blast
  from after [OF parse] obtain p3 where
    run: "Run_build p2 = Inr p3" and dom: "gvk_Domain (GVK (resource p3)) = GetDomain ?c"
    by blast
  have gd: "GetDomain ?c = ''example.com''"
    by (simp add: example_config_def project_config_def)
  have "\<And>p2. Parse fs [(''domain'', StringValue ''example.org'')] p1 \<noteq> Inr p2"
    using after by fastforce
  then have "\<exists>e. Parse fs [(''domain'', StringValue ''example.org'')] p1 = Inl e"
    by (cases "Parse fs [(''domain'', StringValue ''example.org'')] p1") auto
  with bind parse run dom gd show ?thesis
    by (intro exI [of _ p1] exI [of _ fs] exI [of _ p2] exI [of _ p3]) simp
qed

text \<open>
  Claim C6. Binding the flags sets the webhook version to the default v1, and a command
  line that does not name the flag webhook-version leaves it there (first line). The
  command line of the scenario (group ship, version v1beta1, kind Frigate, defaulting)
  is parsed, and \<^verbatim>\<open>Run\<close> builds from it the resource with the webhook descriptor of
  version v1. When the two delegated checks accept these options and this resource, the
  resource was created before and carries no webhook, and v1 is compatible with the
  project (as it is when no webhook version is committed), validation succeeds; and
  when the boilerplate can be read, the scaffolder is acquired with this resource,
  whose webhook version is v1.
\<close>

theorem default_webhook_version_scenario:
  "\<exists>p1 fs. BindFlags (InjectConfig p0 c) [] = Inr (p1, fs)
     \<and> map_option WebhookVersion (options p1) = Some defaultWebhookVersion
     \<and> defaultWebhookVersion = ''v1''
     \<and> (\<forall>args p2. ''webhook-version'' \<notin> fst ` set args \<and> Parse fs args p1 = Inr p2
           \<longrightarrow> map_option WebhookVersion (options p2) = Some ''v1'')
     \<and> (\<exists>p2 p3.
           Parse fs [(''group'', StringValue ''ship''), (''version'', StringValue ''v1beta1''),
                     (''kind'', StringValue ''Frigate''), (''defaulting'', BoolValue True)] p1
             = Inr p2
         \<and> Run_build p2 = Inr p3
         \<and> config p3 = Some c \<and> force p3 = False
         \<and> options p3 =
             Some \<lparr>Group = ''ship'', Domain = GetDomain c, Version = ''v1beta1'',
                   Kind = ''Frigate'', Plural = [], WebhookVersion = ''v1'',
                   DoDefaulting = True, DoValidation = False, DoConversion = False\<rparr>
         \<and> resource p3 =
             \<lparr>GVK = \<lparr>gvk_Group = ''ship'', gvk_Domain = GetDomain c,
                      gvk_Version = ''v1beta1'', gvk_Kind = ''Frigate''\<rparr>,
              res_Plural = [],
              Webhooks = Some \<lparr>wh_WebhookVersion = ''v1'', wh_Defaulting = True,
                                wh_Validation = False, wh_Conversion = False\<rparr>\<rparr>
         \<and> (well_formed d p3
              \<and> (\<exists>r. GetResource c (GVK (resource p3)) = Inr r \<and> \<not> carries_webhooks d r)
              \<and> IsWebhookVersionCompatible c ''v1''
            \<longrightarrow> Validate d p3 = Inr ()
              \<and> (\<forall>readFile bp. readFile ''hack/boilerplate.go.txt'' = Inr bp
                    \<longrightarrow> GetScaffolder readFile p3
                          = Inr (NewWebhookScaffolder (Some c) bp (resource p3) False))))"
proof -
  let ?p1 = "p0\<lparr>config := Some c,
             options := Some (Options_zero\<lparr>Domain := GetDomain c, WebhookVersion := ''v1''\<rparr>),
             force := False\<rparr>"
  let ?fs = "[StringFlag ''group'' Ptr_Group [],
                StringFlag ''version'' Ptr_Version [],
                StringFlag ''kind'' Ptr_Kind [],
                StringFlag ''plural'' Ptr_Plural [],
                StringFlag ''webhook-version'' Ptr_WebhookVersion ''v1'',
                BoolFlag ''defaulting'' Ptr_DoDefaulting False,
                BoolFlag ''programmatic-validation'' Ptr_DoValidation False,
                BoolFlag ''conversion'' Ptr_DoConversion False,
                BoolFlag ''force'' Ptr_force False]"
  let ?opts = "\<lparr>Group = ''ship'', Domain = GetDomain c, Version = ''v1beta1'',
                   Kind = ''Frigate'', Plural = [], WebhookVersion = ''v1'',
                   DoDefaulting = True, DoValidation = False, DoConversion = False\<rparr>"
  let ?p2 = "p0\<lparr>config := Some c, options := Some ?opts, force := False\<rparr>"
  let ?p3 = "?p2\<lparr>resource := NewResource ?opts (Some c)\<rparr>"
  have bind: "BindFlags (InjectConfig p0 c) [] = Inr (?p1, ?fs)"
    using BindFlags_InjectConfig [of p0 c "[]"] by simp
  have dflt: "map_option WebhookVersion (options ?p1) = Some defaultWebhookVersion"
    "defaultWebhookVersion = ''v1''"
    by (simp_all add: defaultWebhookVersion_def)
  have keep: "map_option WebhookVersion (options p2) = Some ''v1''"
    if "''webhook-version'' \<notin> fst ` set args \<and> Parse ?fs args ?p1 = Inr p2" for args p2
  proof -
    from that have notin: "''webhook-version'' \<notin> fst ` set args"
      and parse: "Parse ?fs args ?p1 = Inr p2"
      by simp_all
    have "map_option WebhookVersion (options p2) = map_option WebhookVersion (options ?p1)"
    proof (rule Parse_keeps_WebhookVersion)
      show "Parse ?fs args ?p1 = Inr p2"
        by (rule parse)
      show "n \<notin> fst ` set args" if "StringFlag n Ptr_WebhookVersion v \<in> set ?fs" for n v
        using that notin by auto
    qed
    then show ?thesis
      by simp
  qed
  have parse: "Parse ?fs [(''group'', StringValue ''ship''), (''version'', StringValue ''v1beta1''),
                     (''kind'', StringValue ''Frigate''), (''defaulting'', BoolValue True)] ?p1
             = Inr ?p2"
    by (simp add: Options_zero_def)
  have run: "Run_build ?p2 = Inr ?p3"
    by (simp add: Run_build_def)
  have res: "resource ?p3 =
             \<lparr>GVK = \<lparr>gvk_Group = ''ship'', gvk_Domain = GetDomain c,
                      gvk_Version = ''v1beta1'', gvk_Kind = ''Frigate''\<rparr>,
              res_Plural = [],
              Webhooks = Some \<lparr>wh_WebhookVersion = ''v1'', wh_Defaulting = True,
                                wh_Validation = False, wh_Conversion = False\<rparr>\<rparr>"
    by (simp add: NewResource_def)
  have ok: "Validate d ?p3 = Inr ()
              \<and> (\<forall>readFile bp. readFile ''hack/boilerplate.go.txt'' = Inr bp
                    \<longrightarrow> GetScaffolder readFile ?p3
                          = Inr (NewWebhookScaffolder (Some c) bp (resource ?p3) False))"
    if h: "well_formed d ?p3
              \<and> (\<exists>r. GetResource c (GVK (resource ?p3)) = Inr r \<and> \<not> carries_webhooks d r)
              \<and> IsWebhookVersionCompatible c ''v1''"
  proof -
    from h obtain r where wf: "well_formed d ?p3"
      and r: "GetResource c (GVK (resource ?p3)) = Inr r"
      and nd: "\<not> carries_webhooks d r \<or> force ?p3"
      and compat: "IsWebhookVersionCompatible c ''v1''"
      by blast
    have sel: "webhook_type_selected (resource ?p3)"
      by (simp add: NewResource_selected)
    have c: "config ?p3 = Some c"
      by simp
    have w: "Webhooks (resource ?p3) = Some \<lparr>wh_WebhookVersion = ''v1'', wh_Defaulting = True,
                                wh_Validation = False, wh_Conversion = False\<rparr>"
      by (simp add: NewResource_def)
    from Validate_version_check [OF wf sel c r nd w] compat
    have v: "Validate d ?p3 = Inr ()"
      by simp
    have "GetScaffolder readFile ?p3 = Inr (NewWebhookScaffolder (Some c) bp (resource ?p3) False)"
      if "readFile ''hack/boilerplate.go.txt'' = Inr bp" for readFile bp
      using that by (simp add: GetScaffolder_def filepath_Join_def)
    with v show ?thesis by blast
  qed
  have "\<exists>p2 p3.
           Parse ?fs [(''group'', StringValue ''ship''), (''version'', StringValue ''v1beta1''),
                     (''kind'', StringValue ''Frigate''), (''defaulting'', BoolValue True)] ?p1
             = Inr p2
         \<and> Run_build p2 = Inr p3
         \<and> config p3 = Some c \<and> force p3 = False
         \<and> options p3 = Some ?opts
         \<and> resource p3 =
             \<lparr>GVK = \<lparr>gvk_Group = ''ship'', gvk_Domain = GetDomain c,
                      gvk_Version = ''v1beta1'', gvk_Kind = ''Frigate''\<rparr>,
              res_Plural = [],
              Webhooks = Some \<lparr>wh_WebhookVersion = ''v1'', wh_Defaulting = True,
                                wh_Validation = False, wh_Conversion = False\<rparr>\<rparr>
         \<and> (well_formed d p3
              \<and> (\<exists>r. GetResource c (GVK (resource p3)) = Inr r \<and> \<not> carries_webhooks d r)
              \<and> IsWebhookVersionCompatible c ''v1''
            \<longrightarrow> Validate d p3 = Inr ()
              \<and> (\<forall>readFile bp. readFile ''hack/boilerplate.go.txt'' = Inr bp
                    \<longrightarrow> GetScaffolder readFile p3
                          = Inr (NewWebhookScaffolder (Some c) bp (resource p3) False)))"
    apply (rule exI [of _ ?p2])
    apply (rule exI [of _ ?p3])
    apply (intro conjI)
          apply (rule parse)
         apply (rule run)
        apply simp
       apply simp
      apply simp
     apply (rule res)
    using ok apply blast
    done
  with bind dflt keep show ?thesis
    by blast
qed

text \<open>
  The example project holds the frigate, created earlier and without webhook, and no
  committed webhook version; its boilerplate file is there.
\<close>

theorem default_webhook_version_scenario_witness:
  "\<exists>p1 fs p2 p3.
      BindFlags (InjectConfig createWebhookSubcommand_zero (example_config [frigate])) []
        = Inr (p1, fs)
    \<and> Parse fs [(''group'', StringValue ''ship''), (''version'', StringValue ''v1beta1''),
                 (''kind'', StringValue ''Frigate''), (''defaulting'', BoolValue True)] p1
        = Inr p2
    \<and> Run_build p2 = Inr p3
    \<and> options p3 = Some frigate_options
    \<and> committed_webhook_version (Webhooks_IsEmpty example_delegates)
          \<lparr>proj_Domain = ''example.com'', proj_Resources = [frigate]\<rparr> = None
    \<and> Validate example_delegates p3 = Inr ()
    \<and> GetScaffolder
          (\<lambda>path. if path = ''hack/boilerplate.go.txt'' then Inr ''// Copyright''
                  else Inl ''no such file'') p3
        = Inr (NewWebhookScaffolder (Some (example_config [frigate])) ''// Copyright''
                 \<lparr>GVK = \<lparr>gvk_Group = ''ship'', gvk_Domain = ''example.com'',
                          gvk_Version = ''v1beta1'', gvk_Kind = ''Frigate''\<rparr>,
                  res_Plural = [],
                  Webhooks = Some \<lparr>wh_WebhookVersion = ''v1'', wh_Defaulting = True,
                                    wh_Validation = False, wh_Conversion = False\<rparr>\<rparr>
                 False)"
proof -
  let ?c = "example_config [frigate]"
  let ?d = example_delegates
  let ?rf = "\<lambda>path. if path = ''hack/boilerplate.go.txt'' then Inr ''// Copyright''
                  else Inl ''no such file'' :: string + string"
  let ?args = "[(''group'', StringValue ''ship''), (''version'', StringValue ''v1beta1''),
                 (''kind'', StringValue ''Frigate''), (''defaulting'', BoolValue True)]"
  have gd: "GetDomain ?c = ''example.com''"
    by (simp add: example_config_def project_config_def)
  from default_webhook_version_scenario [of createWebhookSubcommand_zero ?c ?d]
  obtain p1 fs p2 p3 where
    bind: "BindFlags (InjectConfig createWebhookSubcommand_zero ?c) [] = Inr (p1, fs)"
    and parse: "Parse fs ?args p1 = Inr p2"
    and run: "Run_build p2 = Inr p3"
    and opts: "options p3 =
             Some \<lparr>Group = ''ship'', Domain = GetDomain ?c, Version = ''v1beta1'',
                   Kind = ''Frigate'', Plural = [], WebhookVersion = ''v1'',
                   DoDefaulting = True, DoValidation = False, DoConversion = False\<rparr>"
    and res: "resource p3 =
             \<lparr>GVK = \<lparr>gvk_Group = ''ship'', gvk_Domain = GetDomain ?c,
                      gvk_Version = ''v1beta1'', gvk_Kind = ''Frigate''\<rparr>,
              res_Plural = [],
              Webhooks = Some \<lparr>wh_WebhookVersion = ''v1'', wh_Defaulting = True,
                                wh_Validation = False, wh_Conversion = False\<rparr>\<rparr>"
    and concl: "well_formed ?d p3
              \<and> (\<exists>r. GetResource ?c (GVK (resource p3)) = Inr r \<and> \<not> carries_webhooks ?d r)
              \<and> IsWebhookVersionCompatible ?c ''v1''
            \<Longrightarrow> Validate ?d p3 = Inr ()
              \<and> (\<forall>readFile bp. readFile ''hack/boilerplate.go.txt'' = Inr bp
                    \<longrightarrow> GetScaffolder readFile p3
                          = Inr (NewWebhookScaffolder (Some ?c) bp (resource p3) False))"
    by blast
  have none: "committed_webhook_version (Webhooks_IsEmpty ?d)
          \<lparr>proj_Domain = ''example.com'', proj_Resources = [frigate]\<rparr> = None"
    by (simp add: example_defs)
  have wf: "well_formed ?d p3"
    by (simp add: well_formed_def opts res example_delegates_def)
  have g: "GetResource ?c (GVK (resource p3)) = Inr frigate"
    by (simp add: res gd) (simp add: example_defs)
  have nc: "\<not> carries_webhooks ?d frigate"
    by (simp add: example_defs)
  have compat: "IsWebhookVersionCompatible ?c ''v1''"
    unfolding example_config_def using none by (rule uncommitted_compatible)
  from concl wf g nc compat
  have v: "Validate ?d p3 = Inr ()"
    and s: "GetScaffolder ?rf p3
              = Inr (NewWebhookScaffolder (Some ?c) ''// Copyright'' (resource p3) False)"
    by auto
  from opts gd have o: "options p3 = Some frigate_options"
    by (simp add: frigate_options_def)
  from bind parse run o none v s res gd show ?thesis
    by (intro exI [of _ p1] exI [of _ fs] exI [of _ p2] exI [of _ p3]) simp
qed

end
